theory Spec2Isabelle
  imports Main
begin

section \<open>Machine integers and small helpers\<close>

text \<open>
  The binary is built for \<open>linux/amd64\<close>, so Go's \<open>int\<close> and \<open>int64\<close> are 64-bit and
  \<open>int32\<close> is 32-bit two's complement. Integers are modelled as \<open>int\<close>; where the source
  narrows a value to \<open>int32\<close> (the failure counter, the converted threshold) the wrap-around
  is written out by \<open>wrap32\<close>, and by \<open>wrap64\<close> for the product that gives the check interval.

  A Go \<open>string\<close> and a \<open>[]byte\<close> are both sequences of 8-bit bytes, and so is an
  Isabelle \<open>string\<close>: a \<open>char\<close> is one byte, \<open>of_char\<close> reads its value and \<open>CHR 0x05\<close>
  writes the byte 5.
\<close>

type_synonym byte = char

definition wrap32 :: "int \<Rightarrow> int" where
  "wrap32 x = (x + 2147483648) mod 4294967296 - 2147483648"

definition wrap64 :: "int \<Rightarrow> int" where
  "wrap64 x = (x + 9223372036854775808) mod 18446744073709551616 - 9223372036854775808"

text \<open>Go's conversion \<open>int32(x)\<close> of an \<open>int\<close>.\<close>

definition int32 :: "int \<Rightarrow> int" where
  "int32 x = wrap32 x"

text \<open>Go's \<open>%\<close> truncates towards zero: the result has the sign of the dividend.\<close>

definition go_rem :: "int \<Rightarrow> int \<Rightarrow> int" where
  "go_rem a b = sgn a * (\<bar>a\<bar> mod \<bar>b\<bar>)"

section \<open>Configuration (internal/config/config.go)\<close>

record ConnectionConfig =
  cfg_Name :: string
  cfg_InterfaceName :: string
  cfg_ConfigPath :: string

record WireGuardConfig =
  Connections :: "ConnectionConfig list"
  HealthCheckURL :: string
  HealthCheckInterval :: int
  FailureThreshold :: int

record ProxyConfig =
  BasePort :: int
  ReadTimeout :: int
  WriteTimeout :: int
  FailureHTTPCode :: int
  BufferSize :: int

record WebServerConfig =
  Port :: int

record Config =
  WireGuard :: WireGuardConfig
  Proxy :: ProxyConfig
  WebServer :: WebServerConfig

datatype load_error = ReadingConfigFile | ParsingConfigFile


section \<open>Statistics tracker (internal/stats/tracker.go)\<close>

record ConnectionStats =
  RequestCount :: int
  IsHealthy :: bool
  LatencySum :: int
  LatencyCount :: int
  LastCheckTime :: int

record Tracker =
  totalRequests :: int
  tracker_connections :: "ConnectionStats list"

definition NewTracker :: "nat \<Rightarrow> Tracker" where
  "NewTracker numConnections =
     \<lparr>totalRequests = 0,
      tracker_connections =
        replicate numConnections
          \<lparr>RequestCount = 0, IsHealthy = False, LatencySum = 0, LatencyCount = 0, LastCheckTime = 0\<rparr>\<rparr>"

definition in_range :: "int \<Rightarrow> 'a list \<Rightarrow> bool" where
  "in_range i xs = (0 \<le> i \<and> i < int (length xs))"

definition IncrementRequests :: "Tracker \<Rightarrow> int \<Rightarrow> Tracker" where
  "IncrementRequests t connectionIndex =
     (let t1 = t\<lparr>totalRequests := totalRequests t + 1\<rparr>;
          cs = tracker_connections t1
      in if in_range connectionIndex cs
         then t1\<lparr>tracker_connections :=
                   cs[nat connectionIndex :=
                        (cs ! nat connectionIndex)\<lparr>RequestCount := RequestCount (cs ! nat connectionIndex) + 1\<rparr>]\<rparr>
         else t1)"

text \<open>\<open>snow\<close> is the reading of \<open>time.Now().Unix()\<close> taken inside \<open>SetConnectionHealth\<close>.\<close>

definition SetConnectionHealth :: "Tracker \<Rightarrow> int \<Rightarrow> bool \<Rightarrow> int \<Rightarrow> Tracker" where
  "SetConnectionHealth t connectionIndex h snow =
     (let cs = tracker_connections t
      in if in_range connectionIndex cs
         then t\<lparr>tracker_connections :=
                  cs[nat connectionIndex :=
                       (cs ! nat connectionIndex)\<lparr>IsHealthy := h, LastCheckTime := snow\<rparr>]\<rparr>
         else t)"

definition RecordLatency :: "Tracker \<Rightarrow> int \<Rightarrow> int \<Rightarrow> Tracker" where
  "RecordLatency t connectionIndex latency =
     (let cs = tracker_connections t
      in if in_range connectionIndex cs
         then t\<lparr>tracker_connections :=
                  cs[nat connectionIndex :=
                       (cs ! nat connectionIndex)\<lparr>LatencySum := LatencySum (cs ! nat connectionIndex) + latency,
                                                   LatencyCount := LatencyCount (cs ! nat connectionIndex) + 1\<rparr>]\<rparr>
         else t)"

section \<open>Tunnels and their manager (package wireguard)\<close>

text \<open>
  \<open>failureCount\<close> is an \<open>atomic.Int32\<close>, \<open>lastCheck\<close> an \<open>atomic.Int64\<close> holding Unix
  seconds. A \<open>*Connection\<close> is the element of \<open>connections\<close> it points to; functions that
  write through the pointer return the updated record.
\<close>

record Connection =
  Index :: int
  Name :: string
  InterfaceName :: string
  ConfigPath :: string
  healthy :: bool
  failureCount :: int
  lastCheck :: int

record Manager =
  connections :: "Connection list"
  stats :: Tracker
  healthCheckURL :: string
  checkInterval :: int
  failureThreshold :: int

fun new_connections :: "int \<Rightarrow> ConnectionConfig list \<Rightarrow> Connection list" where
  "new_connections i [] = []"
| "new_connections i (connCfg # rest) =
     \<lparr>Index = i, Name = cfg_Name connCfg, InterfaceName = cfg_InterfaceName connCfg,
      ConfigPath = cfg_ConfigPath connCfg, healthy = False, failureCount = 0, lastCheck = 0\<rparr>
     # new_connections (i + 1) rest"

definition NewManager :: "WireGuardConfig \<Rightarrow> Tracker \<Rightarrow> Manager" where
  "NewManager cfg statsTracker =
     \<lparr>connections = new_connections 0 (Connections cfg),
      stats = statsTracker,
      healthCheckURL = HealthCheckURL cfg,
      checkInterval = wrap64 (HealthCheckInterval cfg * 1000000000),
      failureThreshold = FailureThreshold cfg\<rparr>"

subsection \<open>Probing\<close>

text \<open>
  What the HTTPS GET of \<open>checkHealth\<close> came back with: a transport error, or a response
  with its status code and the measured latency in nanoseconds.
\<close>

datatype probe = DoError | Response int int

datatype probe_error = TransportError | UnexpectedStatus int

definition checkHealth :: "Tracker \<Rightarrow> Connection \<Rightarrow> probe \<Rightarrow> probe_error option \<times> Tracker" where
  "checkHealth st conn p =
     (case p of
        DoError \<Rightarrow> (Some TransportError, st)
      | Response code latency \<Rightarrow>
          if code \<noteq> 200 then (Some (UnexpectedStatus code), st)
          else (None, RecordLatency st (Index conn) latency))"

text \<open>
  \<open>performHealthCheck\<close>: \<open>now\<close> is the reading of \<open>time.Now().Unix()\<close> taken right after
  \<open>checkHealth\<close> returns. The result is the connection as written through the pointer and
  the tracker.
\<close>

definition performHealthCheck ::
  "Manager \<Rightarrow> Connection \<Rightarrow> probe \<Rightarrow> int \<Rightarrow> int \<Rightarrow> Connection \<times> Tracker" where
  "performHealthCheck m conn p now snow =
     (case checkHealth (stats m) conn p of (err, st) \<Rightarrow>
        (let c1 = conn\<lparr>lastCheck := now\<rparr> in
         if err \<noteq> None then
           (let failures = wrap32 (failureCount c1 + 1);
                c2 = c1\<lparr>failureCount := failures\<rparr>
            in if failures \<ge> int32 (failureThreshold m) then
                 (if healthy c2
                  then (c2\<lparr>healthy := False\<rparr>, SetConnectionHealth st (Index c2) False snow)
                  else (c2, st))
               else (c2, st))
         else
           (let c2 = c1\<lparr>failureCount := 0\<rparr>
            in if \<not> healthy c2
               then (c2\<lparr>healthy := True\<rparr>, SetConnectionHealth st (Index c2) True snow)
               else (c2, st))))"

text \<open>A probe succeeds iff it returns HTTP status 200.\<close>

definition probe_ok :: "probe \<Rightarrow> bool" where
  "probe_ok p = (case p of DoError \<Rightarrow> False | Response code latency \<Rightarrow> code = 200)"

subsection \<open>Selection\<close>

datatype select_error =
    InvalidConnectionIndex int
  | ConnectionNotHealthy string
  | NoHealthyConnections
  | IndexOutOfRangePanic int

definition GetHealthyConnection :: "Manager \<Rightarrow> int \<Rightarrow> select_error + Connection" where
  "GetHealthyConnection m index =
     (if index < 0 \<or> index \<ge> int (length (connections m)) then Inl (InvalidConnectionIndex index)
      else (let conn = connections m ! nat index
            in if \<not> healthy conn then Inl (ConnectionNotHealthy (Name conn))
               else Inr conn))"

text \<open>
  \<open>GetRandomHealthyConnection\<close>: \<open>healthy_snapshot\<close> is the loop that appends the healthy
  connections to \<open>healthyConns\<close>; \<open>nano\<close> is the reading of \<open>time.Now().UnixNano()\<close>. A
  negative remainder would index the slice below zero, which panics in Go.
\<close>

fun healthy_snapshot :: "Connection list \<Rightarrow> Connection list \<Rightarrow> Connection list" where
  "healthy_snapshot healthyConns [] = healthyConns"
| "healthy_snapshot healthyConns (conn # rest) =
     (if healthy conn then healthy_snapshot (healthyConns @ [conn]) rest
      else healthy_snapshot healthyConns rest)"

definition GetRandomHealthyConnection :: "Manager \<Rightarrow> int \<Rightarrow> select_error + Connection" where
  "GetRandomHealthyConnection m nano =
     (let healthyConns = healthy_snapshot [] (connections m)
      in if length healthyConns = 0 then Inl NoHealthyConnections
         else (let idx = go_rem nano (int (length healthyConns))
               in if idx < 0 \<or> idx \<ge> int (length healthyConns) then Inl (IndexOutOfRangePanic idx)
                  else Inr (healthyConns ! nat idx)))"

subsection \<open>Runs of probes on one tunnel\<close>

text \<open>
  The prober applies \<open>performHealthCheck\<close> to a tunnel once per round. \<open>run_probes\<close> lists
  the tunnel's state after each probe of a sequence; every element of the sequence is the
  probe's outcome with the two clock readings taken while it is processed.
\<close>

fun run_probes :: "Manager \<Rightarrow> Connection \<Rightarrow> (probe \<times> int \<times> int) list \<Rightarrow> Connection list" where
  "run_probes m conn [] = []"
| "run_probes m conn (x # xs) =
     (case x of (p, now, snow) \<Rightarrow>
        (case performHealthCheck m conn p now snow of (conn', st') \<Rightarrow>
           conn' # run_probes (m\<lparr>stats := st'\<rparr>) conn' xs))"

definition healthy_trace :: "Manager \<Rightarrow> Connection \<Rightarrow> (probe \<times> int \<times> int) list \<Rightarrow> bool list" where
  "healthy_trace m conn xs = healthy conn # map healthy (run_probes m conn xs)"

text \<open>The number of places where a sequence of flags changes its value.\<close>

fun flips :: "bool list \<Rightarrow> nat" where
  "flips (a # b # bs) = (if a \<noteq> b then 1 else 0) + flips (b # bs)"
| "flips bs = 0"

definition all_fail :: "(probe \<times> int \<times> int) list \<Rightarrow> bool" where
  "all_fail xs = list_all (\<lambda>x. \<not> probe_ok (fst x)) xs"

definition all_succeed :: "(probe \<times> int \<times> int) list \<Rightarrow> bool" where
  "all_succeed xs = list_all (\<lambda>x. probe_ok (fst x)) xs"

section \<open>SOCKS5 front-end (package proxy)\<close>

subsection \<open>Text formatting of the standard library\<close>

text \<open>
  \<open>fmt\<close>'s \<open>%d\<close> and the address printers of \<open>net\<close> and \<open>net/netip\<close> belong to Go's
  standard library (Go 1.25, the builder image of the Dockerfile). They are modelled here
  after the library's documented behaviour.
\<close>

definition digits :: string where
  "digits = ''0123456789abcdef''"

fun decimal :: "nat \<Rightarrow> string" where
  "decimal n = (if n < 10 then [digits ! n] else decimal (n div 10) @ [digits ! (n mod 10)])"

declare decimal.simps [simp del]

text \<open>\<open>appendHex\<close> of \<open>net/netip\<close>: lower-case hexadecimal, leading zeros omitted.\<close>

definition appendHex :: "nat \<Rightarrow> string" where
  "appendHex x =
     (if x \<ge> 4096 then [digits ! (x div 4096)] else []) @
     (if x \<ge> 256 then [digits ! (x div 256 mod 16)] else []) @
     (if x \<ge> 16 then [digits ! (x div 16 mod 16)] else []) @
     [digits ! (x mod 16)]"

fun join :: "string \<Rightarrow> string list \<Rightarrow> string" where
  "join sep [] = []"
| "join sep [x] = x"
| "join sep (x # y # ys) = x @ sep @ join sep (y # ys)"

text \<open>\<open>netip.Addr.string4\<close>: dotted decimal of four bytes.\<close>

definition string4 :: "byte list \<Rightarrow> string" where
  "string4 ip = join ''.'' (map (\<lambda>b. decimal (of_char b)) ip)"

text \<open>The eight 16-bit groups of a 16-byte address, big-endian.\<close>

definition v6u16 :: "byte list \<Rightarrow> nat \<Rightarrow> nat" where
  "v6u16 ip i = of_char (ip ! (2 * i)) * 256 + of_char (ip ! (2 * i + 1))"

definition groups :: "byte list \<Rightarrow> nat list" where
  "groups ip = map (v6u16 ip) [0..<8]"

text \<open>
  The first loop of \<open>netip.Addr.appendTo6\<close>: the first longest run of at least two zero
  groups, as \<open>(zeroStart, zeroEnd)\<close>; both are 255 when there is none.
\<close>

definition zero_run :: "nat list \<Rightarrow> nat \<times> nat" where
  "zero_run gs =
     fold (\<lambda>i (zeroStart, zeroEnd).
             (let j = i + length (takeWhile (\<lambda>g. g = 0) (drop i gs)); l = j - i
              in if l \<ge> 2 \<and> l > zeroEnd - zeroStart then (i, j) else (zeroStart, zeroEnd)))
          [0..<8] (255, 255)"

text \<open>
  The second loop of \<open>appendTo6\<close>: the groups in front of the run joined by colons, a double
  colon for the run, and the groups after it joined by colons.
\<close>

definition string6 :: "byte list \<Rightarrow> string" where
  "string6 ip =
     (let gs = groups ip
      in case zero_run gs of (zeroStart, zeroEnd) \<Rightarrow>
           if zeroStart < 8
           then join '':'' (map appendHex (take zeroStart gs)) @ ''::'' @
                join '':'' (map appendHex (drop zeroEnd gs))
           else join '':'' (map appendHex gs))"

text \<open>\<open>net.IP.To4\<close>: the four bytes of an IPv4 or IPv4-mapped address, otherwise \<open>nil\<close>.\<close>

definition To4 :: "byte list \<Rightarrow> byte list" where
  "To4 ip =
     (if length ip = 4 then ip
      else if length ip = 16 \<and> list_all (\<lambda>b. b = CHR 0x00) (take 10 ip) \<and>
              ip ! 10 = CHR 0xFF \<and> ip ! 11 = CHR 0xFF
      then drop 12 ip
      else [])"

definition hexString :: "byte list \<Rightarrow> string" where
  "hexString b = concat (map (\<lambda>c. [digits ! (of_char c div 16), digits ! (of_char c mod 16)]) b)"

text \<open>
  \<open>net.IP.String\<close>: ``dotted decimal, if ip is an IPv4 or IP4-mapped IPv6 address; IPv6
  conforming to RFC 5952, if ip is a valid IPv6 address''.
\<close>

definition IP_String :: "byte list \<Rightarrow> string" where
  "IP_String ip =
     (if length ip = 0 then ''<nil>''
      else if length ip \<noteq> 4 \<and> length ip \<noteq> 16 then ''?'' @ hexString ip
      else if length (To4 ip) = 4 then string4 (To4 ip)
      else string6 ip)"

subsection \<open>Client connections\<close>

text \<open>
  A client connection as the handler sees it: \<open>pending\<close> are the bytes the peer delivers
  before end of stream or the read deadline, \<open>written\<close> the bytes accepted by \<open>Write\<close> so
  far, \<open>writes_left\<close> the number of further \<open>Write\<close> calls that succeed, and \<open>closed\<close>
  whether \<open>Close\<close> has run.
\<close>

record net_conn =
  pending :: "byte list"
  written :: "byte list"
  writes_left :: nat
  closed :: bool

datatype io_error = ReadError | WriteError

definition ReadFull :: "net_conn \<Rightarrow> nat \<Rightarrow> (io_error + byte list) \<times> net_conn" where
  "ReadFull conn n =
     (if length (pending conn) < n then (Inl ReadError, conn\<lparr>pending := []\<rparr>)
      else (Inr (take n (pending conn)), conn\<lparr>pending := drop n (pending conn)\<rparr>))"

definition Write :: "net_conn \<Rightarrow> byte list \<Rightarrow> io_error option \<times> net_conn" where
  "Write conn b =
     (if writes_left conn = 0 then (Some WriteError, conn)
      else (None, conn\<lparr>written := written conn @ b, writes_left := writes_left conn - 1\<rparr>))"

definition Close :: "net_conn \<Rightarrow> net_conn" where
  "Close conn = conn\<lparr>closed := True\<rparr>"

subsection \<open>Protocol constants\<close>

definition socks5Version :: byte where "socks5Version = CHR 0x05"
definition noAuth :: byte where "noAuth = CHR 0x00"
definition cmdConnect :: byte where "cmdConnect = CHR 0x01"
definition atypIPv4 :: byte where "atypIPv4 = CHR 0x01"
definition atypDomain :: byte where "atypDomain = CHR 0x03"
definition atypIPv6 :: byte where "atypIPv6 = CHR 0x04"
definition repSuccess :: byte where "repSuccess = CHR 0x00"
definition repFailure :: byte where "repFailure = CHR 0x01"

datatype socks_error =
    ReadHandshake
  | UnsupportedSocksVersion byte
  | NoAuthenticationMethods
  | ReadMethods
  | WriteFailed
  | ReadRequestHeader
  | InvalidVersion byte
  | UnsupportedCommand byte
  | ReadIPv4
  | ReadDomainLength
  | ReadDomain
  | ReadIPv6
  | UnsupportedAddressType byte
  | ReadPort

subsection \<open>Handshake, request, reply\<close>

definition handleHandshake :: "net_conn \<Rightarrow> socks_error option \<times> net_conn" where
  "handleHandshake conn =
     (case ReadFull conn 2 of
        (Inl e, c1) \<Rightarrow> (Some ReadHandshake, c1)
      | (Inr buf, c1) \<Rightarrow>
          if buf ! 0 \<noteq> socks5Version then (Some (UnsupportedSocksVersion (buf ! 0)), c1)
          else (let nmethods = (of_char (buf ! 1) :: nat)
                in if nmethods = 0 then (Some NoAuthenticationMethods, c1)
                   else (case ReadFull c1 nmethods of
                           (Inl e, c2) \<Rightarrow> (Some ReadMethods, c2)
                         | (Inr methods, c2) \<Rightarrow>
                             (case Write c2 [socks5Version, noAuth] of
                                (Some e, c3) \<Rightarrow> (Some WriteFailed, c3)
                              | (None, c3) \<Rightarrow> (None, c3)))))"

text \<open>\<open>binary.BigEndian.Uint16\<close> followed by \<open>fmt.Sprintf("%s:%d", addr, port)\<close>.\<close>

definition BigEndian_Uint16 :: "byte list \<Rightarrow> nat" where
  "BigEndian_Uint16 b = of_char (b ! 0) * 256 + of_char (b ! 1)"

definition read_port :: "string \<Rightarrow> net_conn \<Rightarrow> (socks_error + string) \<times> net_conn" where
  "read_port addr conn =
     (case ReadFull conn 2 of
        (Inl e, c1) \<Rightarrow> (Inl ReadPort, c1)
      | (Inr portBuf, c1) \<Rightarrow> (Inr (addr @ '':'' @ decimal (BigEndian_Uint16 portBuf)), c1))"

definition getTargetAddress :: "net_conn \<Rightarrow> (socks_error + string) \<times> net_conn" where
  "getTargetAddress conn =
     (case ReadFull conn 4 of
        (Inl e, c1) \<Rightarrow> (Inl ReadRequestHeader, c1)
      | (Inr buf, c1) \<Rightarrow>
          if buf ! 0 \<noteq> socks5Version then (Inl (InvalidVersion (buf ! 0)), c1)
          else if buf ! 1 \<noteq> cmdConnect then (Inl (UnsupportedCommand (buf ! 1)), c1)
          else (let atyp = buf ! 3
                in if atyp = atypIPv4 then
                     (case ReadFull c1 4 of
                        (Inl e, c2) \<Rightarrow> (Inl ReadIPv4, c2)
                      | (Inr ipBuf, c2) \<Rightarrow> read_port (IP_String ipBuf) c2)
                   else if atyp = atypDomain then
                     (case ReadFull c1 1 of
                        (Inl e, c2) \<Rightarrow> (Inl ReadDomainLength, c2)
                      | (Inr lenBuf, c2) \<Rightarrow>
                          (case ReadFull c2 (of_char (lenBuf ! 0)) of
                             (Inl e, c3) \<Rightarrow> (Inl ReadDomain, c3)
                           | (Inr domainBuf, c3) \<Rightarrow> read_port domainBuf c3))
                   else if atyp = atypIPv6 then
                     (case ReadFull c1 16 of
                        (Inl e, c2) \<Rightarrow> (Inl ReadIPv6, c2)
                      | (Inr ipBuf, c2) \<Rightarrow> read_port (IP_String ipBuf) c2)
                   else (Inl (UnsupportedAddressType atyp), c1)))"

definition connect_response :: "byte \<Rightarrow> byte list" where
  "connect_response rep =
     [socks5Version, rep, CHR 0x00, atypIPv4, CHR 0x00, CHR 0x00, CHR 0x00, CHR 0x00, CHR 0x00, CHR 0x00]"

definition sendConnectResponse :: "net_conn \<Rightarrow> byte \<Rightarrow> io_error option \<times> net_conn" where
  "sendConnectResponse conn rep = Write conn (connect_response rep)"

subsection \<open>Handling one accepted connection\<close>

text \<open>
  The proxy manager holds the tunnel manager; the statistics tracker both point to is the
  \<open>stats\<close> of \<open>wgManager\<close>.
\<close>

record ProxyManager =
  proxy_cfg :: ProxyConfig
  wgManager :: Manager

text \<open>
  The selection step of \<open>handleConnection\<close>: listener index 0 takes any healthy tunnel,
  listener index \<open>k\<close> otherwise asks for tunnel \<open>k - 1\<close>.
\<close>

definition select_connection :: "Manager \<Rightarrow> int \<Rightarrow> int \<Rightarrow> select_error + Connection" where
  "select_connection wg index nano =
     (if index = 0 then GetRandomHealthyConnection wg nano
      else GetHealthyConnection wg (index - 1))"

text \<open>
  What a handler leaves behind: the client connection, the tracker, and the interface and
  target of the relay when one was started. \<open>dial iface target\<close> tells whether
  \<open>dialThroughInterface\<close> connects.
\<close>

record handled =
  client :: net_conn
  tracker :: Tracker
  relayed :: "(string \<times> string) option"

definition handleConnection ::
  "ProxyManager \<Rightarrow> (string \<Rightarrow> string \<Rightarrow> bool) \<Rightarrow> int \<Rightarrow> net_conn \<Rightarrow> int \<Rightarrow> handled" where
  "handleConnection m dial nano clientConn index =
     (let st = stats (wgManager m) in
      case handleHandshake clientConn of
        (Some e, c1) \<Rightarrow> \<lparr>client = Close c1, tracker = st, relayed = None\<rparr>
      | (None, c1) \<Rightarrow>
          (case getTargetAddress c1 of
             (Inl e, c2) \<Rightarrow> \<lparr>client = Close c2, tracker = st, relayed = None\<rparr>
           | (Inr targetAddr, c2) \<Rightarrow>
               (case select_connection (wgManager m) index nano of
                  Inl e \<Rightarrow>
                    \<lparr>client = Close (snd (sendConnectResponse c2 repFailure)), tracker = st, relayed = None\<rparr>
                | Inr wgConn \<Rightarrow>
                    if \<not> dial (InterfaceName wgConn) targetAddr
                    then \<lparr>client = Close (snd (sendConnectResponse c2 repFailure)), tracker = st,
                          relayed = None\<rparr>
                    else (case sendConnectResponse c2 repSuccess of
                            (Some e, c3) \<Rightarrow> \<lparr>client = Close c3, tracker = st, relayed = None\<rparr>
                          | (None, c3) \<Rightarrow>
                              \<lparr>client = Close c3, tracker = IncrementRequests st (Index wgConn),
                               relayed = Some (InterfaceName wgConn, targetAddr)\<rparr>))))"

text \<open>
  Whether tunnel selection and the dial through the selected tunnel's interface both
  succeed for a target.
\<close>

definition upstream_ok :: "ProxyManager \<Rightarrow> (string \<Rightarrow> string \<Rightarrow> bool) \<Rightarrow> int \<Rightarrow> int \<Rightarrow> string \<Rightarrow> bool" where
  "upstream_ok m dial nano index targetAddr =
     (case select_connection (wgManager m) index nano of
        Inl e \<Rightarrow> False
      | Inr wgConn \<Rightarrow> dial (InterfaceName wgConn) targetAddr)"

section \<open>Tunnel provisioning (package wireguard)\<close>

subsection \<open>String functions of the standard library\<close>

text \<open>
  \<open>strings.TrimSpace\<close> removes leading and trailing white space as Unicode defines it. On
  the bytes of a string these are the six ASCII characters of \<open>asciiSpace\<close> and the UTF-8
  encodings of U+0085, U+00A0 (two bytes) and of U+1680, U+2000 to U+200A, U+2028, U+2029,
  U+202F, U+205F and U+3000 (three bytes).
\<close>

definition nl :: char where
  "nl = CHR 0x0A"

definition asciiSpace :: "char \<Rightarrow> bool" where
  "asciiSpace c = (c = CHR 0x09 \<or> c = CHR 0x0A \<or> c = CHR 0x0B \<or> c = CHR 0x0C \<or> c = CHR 0x0D \<or> c = CHR 0x20)"

definition space2 :: "char \<Rightarrow> char \<Rightarrow> bool" where
  "space2 a b = (a = CHR 0xC2 \<and> (b = CHR 0x85 \<or> b = CHR 0xA0))"

definition space3 :: "char \<Rightarrow> char \<Rightarrow> char \<Rightarrow> bool" where
  "space3 a b c =
     ((a = CHR 0xE1 \<and> b = CHR 0x9A \<and> c = CHR 0x80) \<or>
      (a = CHR 0xE2 \<and> b = CHR 0x80 \<and>
         ((128 \<le> (of_char c :: nat) \<and> (of_char c :: nat) \<le> 138) \<or> c = CHR 0xA8 \<or> c = CHR 0xA9 \<or> c = CHR 0xAF)) \<or>
      (a = CHR 0xE2 \<and> b = CHR 0x81 \<and> c = CHR 0x9F) \<or>
      (a = CHR 0xE3 \<and> b = CHR 0x80 \<and> c = CHR 0x80))"

fun trim_left :: "string \<Rightarrow> string" where
  "trim_left (a # b # c # s) =
     (if asciiSpace a then trim_left (b # c # s)
      else if space2 a b then trim_left (c # s)
      else if space3 a b c then trim_left s
      else a # b # c # s)"
| "trim_left [a, b] =
     (if asciiSpace a then trim_left [b] else if space2 a b then [] else [a, b])"
| "trim_left [a] = (if asciiSpace a then [] else [a])"
| "trim_left [] = []"

text \<open>The same from the end, on the reversed string.\<close>

fun trim_reversed :: "string \<Rightarrow> string" where
  "trim_reversed (c # b # a # s) =
     (if asciiSpace c then trim_reversed (b # a # s)
      else if space2 b c then trim_reversed (a # s)
      else if space3 a b c then trim_reversed s
      else c # b # a # s)"
| "trim_reversed [c, b] =
     (if asciiSpace c then trim_reversed [b] else if space2 b c then [] else [c, b])"
| "trim_reversed [c] = (if asciiSpace c then [] else [c])"
| "trim_reversed [] = []"

definition TrimSpace :: "string \<Rightarrow> string" where
  "TrimSpace s = rev (trim_reversed (rev (trim_left s)))"

text \<open>\<open>strings.Split\<close> with a separator of one byte: never empty.\<close>

fun Split :: "string \<Rightarrow> char \<Rightarrow> string list" where
  "Split [] sep = [[]]"
| "Split (c # s) sep =
     (if c = sep then [] # Split s sep
      else (case Split s sep of [] \<Rightarrow> [[c]] | w # ws \<Rightarrow> (c # w) # ws))"

text \<open>\<open>strings.SplitN(s, sep, 2)\<close> with a separator of one byte.\<close>

definition SplitN2 :: "string \<Rightarrow> char \<Rightarrow> string list" where
  "SplitN2 s sep =
     (if sep \<in> set s then [takeWhile (\<lambda>c. c \<noteq> sep) s, tl (dropWhile (\<lambda>c. c \<noteq> sep) s)]
      else [s])"

definition HasPrefix :: "string \<Rightarrow> string \<Rightarrow> bool" where
  "HasPrefix s pre = (take (length pre) s = pre)"

text \<open>\<open>strings.Contains\<close> with a substring of one byte.\<close>

definition Contains :: "string \<Rightarrow> char \<Rightarrow> bool" where
  "Contains s c = (c \<in> set s)"

subsection \<open>parseWireGuardConfig\<close>

datatype parse_error = ReadFileError | NoAddressFound

definition interfaceOnlySettings :: "string \<Rightarrow> bool" where
  "interfaceOnlySettings key =
     (key \<in> set [''Address'', ''DNS'', ''MTU'', ''Table'', ''PreUp'', ''PostUp'', ''PreDown'',
                  ''PostDown'', ''SaveConfig''])"

text \<open>The state of the loop over the lines: the builder, the addresses, the section flag.\<close>

record parse_state =
  wgConfig :: string
  addresses :: "string list"
  inInterface :: bool

text \<open>The inner loop over the comma-separated parts of an \<open>Address\<close> value.\<close>

fun append_addresses :: "string list \<Rightarrow> string list \<Rightarrow> string list" where
  "append_addresses addrs [] = addrs"
| "append_addresses addrs (addr # addrList) =
     (let addr' = TrimSpace addr
      in if addr' \<noteq> [] then append_addresses (addrs @ [addr']) addrList
         else append_addresses addrs addrList)"

definition WriteString :: "parse_state \<Rightarrow> string \<Rightarrow> parse_state" where
  "WriteString st s = st\<lparr>wgConfig := wgConfig st @ s\<rparr>"

text \<open>The body of the loop over the lines.\<close>

definition parse_line :: "parse_state \<Rightarrow> string \<Rightarrow> parse_state" where
  "parse_line st line =
     (let trimmedLine = TrimSpace line in
      if trimmedLine = ''[Interface]'' then WriteString (st\<lparr>inInterface := True\<rparr>) (line @ [nl])
      else if HasPrefix trimmedLine ''['' then WriteString (st\<lparr>inInterface := False\<rparr>) (line @ [nl])
      else if trimmedLine = [] \<or> HasPrefix trimmedLine ''#'' \<or> HasPrefix trimmedLine '';''
      then WriteString st (line @ [nl])
      else if Contains trimmedLine (CHR ''='') then
        (let parts = SplitN2 trimmedLine (CHR ''='') in
         if length parts = 2 then
           (let key = TrimSpace (parts ! 0); val = TrimSpace (parts ! 1) in
            if inInterface st \<and> key = ''Address''
            then st\<lparr>addresses := append_addresses (addresses st) (Split val (CHR '',''))\<rparr>
            else if inInterface st \<and> interfaceOnlySettings key then st
            else WriteString st (line @ [nl]))
         else WriteString st (line @ [nl]))
      else WriteString st (line @ [nl]))"

text \<open>\<open>files path\<close> is what \<open>os.ReadFile\<close> returns for the path: \<open>None\<close> on an error.\<close>

definition parseWireGuardConfig ::
  "(string \<Rightarrow> string option) \<Rightarrow> string \<Rightarrow> parse_error + (string \<times> string list)" where
  "parseWireGuardConfig files configPath =
     (case files configPath of
        None \<Rightarrow> Inl ReadFileError
      | Some data \<Rightarrow>
          (let st = foldl parse_line \<lparr>wgConfig = [], addresses = [], inInterface = False\<rparr> (Split data nl)
           in if length (addresses st) = 0 then Inl NoAddressFound
              else Inr (wgConfig st, addresses st)))"

subsection \<open>The parser as the specification words it\<close>

text \<open>
  These definitions follow the sentences of the specification, line by line of the file,
  and are compared with \<open>parseWireGuardConfig\<close> below. A line is a section header when its
  trimmed text starts with a bracket; a line is inside \<open>[Interface]\<close> when the last header
  before it is exactly \<open>[Interface]\<close>; a setting is a line that is neither a header, nor
  blank, nor a comment, and holds an equals sign.
\<close>

definition spec_is_header :: "string \<Rightarrow> bool" where
  "spec_is_header line = HasPrefix (TrimSpace line) ''[''"

definition spec_in_interface :: "string list \<Rightarrow> bool" where
  "spec_in_interface earlier =
     (case filter spec_is_header earlier of
        [] \<Rightarrow> False
      | h # hs \<Rightarrow> TrimSpace (last (h # hs)) = ''[Interface]'')"

definition spec_is_setting :: "string \<Rightarrow> bool" where
  "spec_is_setting line =
     (\<not> spec_is_header line \<and> TrimSpace line \<noteq> [] \<and> \<not> HasPrefix (TrimSpace line) ''#'' \<and>
      \<not> HasPrefix (TrimSpace line) '';'' \<and> CHR ''='' \<in> set (TrimSpace line))"

definition spec_key :: "string \<Rightarrow> string" where
  "spec_key line = TrimSpace (takeWhile (\<lambda>c. c \<noteq> CHR ''='') (TrimSpace line))"

definition spec_value :: "string \<Rightarrow> string" where
  "spec_value line = TrimSpace (tl (dropWhile (\<lambda>c. c \<noteq> CHR ''='') (TrimSpace line)))"

definition spec_tokens :: "string \<Rightarrow> string list" where
  "spec_tokens v = filter (\<lambda>t. t \<noteq> []) (map TrimSpace (Split v (CHR '','')))"

definition spec_dropped :: "string list \<Rightarrow> string \<Rightarrow> bool" where
  "spec_dropped earlier line =
     (spec_is_setting line \<and> spec_in_interface earlier \<and>
      spec_key line \<in> set [''Address'', ''DNS'', ''MTU'', ''Table'', ''PreUp'', ''PostUp'', ''PreDown'',
                           ''PostDown'', ''SaveConfig''])"

fun spec_filtered :: "string list \<Rightarrow> string list \<Rightarrow> string" where
  "spec_filtered earlier [] = []"
| "spec_filtered earlier (line # rest) =
     (if spec_dropped earlier line then [] else line @ [nl]) @ spec_filtered (earlier @ [line]) rest"

fun spec_addresses :: "string list \<Rightarrow> string list \<Rightarrow> string list" where
  "spec_addresses earlier [] = []"
| "spec_addresses earlier (line # rest) =
     (if spec_is_setting line \<and> spec_in_interface earlier \<and> spec_key line = ''Address''
      then spec_tokens (spec_value line) else [])
     @ spec_addresses (earlier @ [line]) rest"

subsection \<open>bringUpConnection and Initialize\<close>

text \<open>
  The host as provisioning meets it: which paths \<open>os.Stat\<close> fails on, what \<open>os.ReadFile\<close>
  returns, and which of the steps that the source treats as fatal fail. The commands whose
  failure the source ignores (\<open>chmod\<close>, \<open>ip link del\<close>, \<open>ip link add\<close>, \<open>ip address add\<close>,
  the MTU) have no influence on the result and are left out.
\<close>

record host =
  stat_error :: "string \<Rightarrow> bool"
  files :: "string \<Rightarrow> string option"
  create_temp_error :: bool
  write_temp_error :: bool
  setconf_error :: "string \<Rightarrow> string \<Rightarrow> bool"
  link_up_error :: "string \<Rightarrow> bool"

datatype provision_error =
    ConfigFileError
  | FailedToParseConfig parse_error
  | FailedToCreateTempFile
  | FailedToWriteTempConfig
  | FailedToSetWireguardConfig
  | FailedToBringUpInterface

definition bringUpConnection :: "host \<Rightarrow> Connection \<Rightarrow> provision_error option" where
  "bringUpConnection h conn =
     (if stat_error h (ConfigPath conn) then Some ConfigFileError
      else (case parseWireGuardConfig (files h) (ConfigPath conn) of
              Inl e \<Rightarrow> Some (FailedToParseConfig e)
            | Inr (config, addrs) \<Rightarrow>
                if create_temp_error h then Some FailedToCreateTempFile
                else if write_temp_error h then Some FailedToWriteTempConfig
                else if setconf_error h (InterfaceName conn) config then Some FailedToSetWireguardConfig
                else if link_up_error h (InterfaceName conn) then Some FailedToBringUpInterface
                else None))"

text \<open>
  \<open>Initialize\<close>: the provisioning errors are collected and logged as warnings; the initial
  health check calls \<open>checkHealth\<close> on every connection (\<open>probes i\<close> is what the probe of
  connection \<open>i\<close> comes back with) and logs its error. The function returns \<open>nil\<close>.
\<close>

definition Initialize ::
  "host \<Rightarrow> (int \<Rightarrow> probe) \<Rightarrow> Manager \<Rightarrow> provision_error option \<times> Manager" where
  "Initialize h probes m =
     (let warnings = List.map_filter (bringUpConnection h) (connections m);
          st = foldl (\<lambda>st conn. snd (checkHealth st conn (probes (Index conn)))) (stats m) (connections m)
      in (None, m\<lparr>stats := st\<rparr>))"

subsection \<open>The periodic prober\<close>

text \<open>
  One round of \<open>StartHealthChecks\<close> starts \<open>performHealthCheck\<close> for every connection;
  \<open>r i\<close> is the outcome of the probe of connection \<open>i\<close> in that round with its two clock
  readings. Every probe writes its own connection and its own slot of the tracker, so the
  round is modelled in the order of the connections.
\<close>

fun probe_all ::
  "Manager \<Rightarrow> (int \<Rightarrow> probe \<times> int \<times> int) \<Rightarrow> Connection list \<Rightarrow> Connection list \<times> Tracker" where
  "probe_all m r [] = ([], stats m)"
| "probe_all m r (conn # rest) =
     (case r (Index conn) of (p, now, snow) \<Rightarrow>
        (case performHealthCheck m conn p now snow of (conn', st') \<Rightarrow>
           (case probe_all (m\<lparr>stats := st'\<rparr>) r rest of (rest', st'') \<Rightarrow> (conn' # rest', st''))))"

definition health_round :: "Manager \<Rightarrow> (int \<Rightarrow> probe \<times> int \<times> int) \<Rightarrow> Manager" where
  "health_round m r =
     (case probe_all m r (connections m) of (cs, st) \<Rightarrow> m\<lparr>connections := cs, stats := st\<rparr>)"

text \<open>
  \<open>StartHealthChecks\<close>: \<open>time.NewTicker\<close> panics when the interval is not positive
  (\<open>None\<close>); otherwise the initial round is issued at once, then one round per tick of the
  ticker until the context is cancelled (\<open>ticks\<close> are the rounds that happen before that).
\<close>

definition StartHealthChecks ::
  "Manager \<Rightarrow> (int \<Rightarrow> probe \<times> int \<times> int) \<Rightarrow> (int \<Rightarrow> probe \<times> int \<times> int) list \<Rightarrow> Manager option" where
  "StartHealthChecks m initial ticks =
     (if checkInterval m \<le> 0 then None
      else Some (foldl health_round (health_round m initial) ticks))"

section \<open>The process (main.go)\<close>






text \<open>
  The listeners \<open>main\<close> starts: index \<open>i\<close> on port \<open>BasePort + i\<close>, a sum of two Go \<open>int\<close>,
  for \<open>i\<close> from 0 to N.
\<close>

definition proxy_listeners :: "Config \<Rightarrow> (int \<times> int) list" where
  "proxy_listeners config =
     map (\<lambda>i. (int i, wrap64 (BasePort (Proxy config) + int i)))
       [0..<length (Connections (WireGuard config)) + 1]"











section \<open>Example values\<close>

text \<open>Two tunnels, the first healthy after two failed probes, the second unhealthy.\<close>

definition tunnel_a :: Connection where
  "tunnel_a =
     \<lparr>Index = 0, Name = ''a'', InterfaceName = ''wg0'', ConfigPath = ''/etc/wireguard/wg0.conf'',
      healthy = True, failureCount = 2, lastCheck = 0\<rparr>"

definition tunnel_b :: Connection where
  "tunnel_b =
     \<lparr>Index = 1, Name = ''b'', InterfaceName = ''wg1'', ConfigPath = ''/etc/wireguard/wg1.conf'',
      healthy = False, failureCount = 3, lastCheck = 0\<rparr>"

definition two_tunnels :: Manager where
  "two_tunnels =
     \<lparr>connections = [tunnel_a, tunnel_b], stats = NewTracker 2,
      healthCheckURL = ''http://1.1.1.1/cdn-cgi/trace'', checkInterval = 30000000000,
      failureThreshold = 3\<rparr>"

definition both_healthy :: Manager where
  "both_healthy = two_tunnels\<lparr>connections := [tunnel_a, tunnel_b\<lparr>healthy := True, failureCount := 0\<rparr>]\<rparr>"

text \<open>A configuration that names the two tunnels and spells out the default values.\<close>

definition example_config :: Config where
  "example_config =
     \<lparr>WireGuard =
        \<lparr>Connections =
           [\<lparr>cfg_Name = ''a'', cfg_InterfaceName = ''wg0'', cfg_ConfigPath = ''/etc/wireguard/wg0.conf''\<rparr>,
            \<lparr>cfg_Name = ''b'', cfg_InterfaceName = ''wg1'', cfg_ConfigPath = ''/etc/wireguard/wg1.conf''\<rparr>],
         HealthCheckURL = ''http://1.1.1.1/cdn-cgi/trace'', HealthCheckInterval = 30,
         FailureThreshold = 3\<rparr>,
      Proxy = \<lparr>BasePort = 9930, ReadTimeout = 30, WriteTimeout = 30, FailureHTTPCode = 580,
               BufferSize = 32768\<rparr>,
      WebServer = \<lparr>Port = 9929\<rparr>\<rparr>"

text \<open>The manager that \<open>main\<close> builds from it: both tunnels unhealthy, never probed.\<close>

definition fresh_manager :: Manager where
  "fresh_manager = NewManager (WireGuard example_config) (NewTracker 2)"

definition example_proxy :: ProxyManager where
  "example_proxy = \<lparr>proxy_cfg = Proxy example_config, wgManager = two_tunnels\<rparr>"

text \<open>
  Clients. The first sends the greeting \<open>05 01 00\<close> and the request
  \<open>05 01 00 01 5D B8 D8 22 01 BB\<close> (CONNECT to 93.184.216.34:443); the second greets with
  version 4; the third sends a BIND request after a valid greeting.
\<close>

definition greeting :: "byte list" where
  "greeting = [CHR 0x05, CHR 0x01, CHR 0x00]"

definition connect_request :: "byte list" where
  "connect_request =
     [CHR 0x05, CHR 0x01, CHR 0x00, CHR 0x01, CHR 0x5D, CHR 0xB8, CHR 0xD8, CHR 0x22, CHR 0x01, CHR 0xBB]"

definition connecting_client :: net_conn where
  "connecting_client = \<lparr>pending = greeting @ connect_request, written = [], writes_left = 2, closed = False\<rparr>"

definition socks4_client :: net_conn where
  "socks4_client =
     \<lparr>pending = [CHR 0x04, CHR 0x01, CHR 0x00], written = [], writes_left = 2, closed = False\<rparr>"

definition bind_client :: net_conn where
  "bind_client =
     \<lparr>pending = greeting @ [CHR 0x05, CHR 0x02, CHR 0x00, CHR 0x01, CHR 0x5D, CHR 0xB8, CHR 0xD8, CHR 0x22, CHR 0x01, CHR 0xBB],
      written = [], writes_left = 2, closed = False\<rparr>"

text \<open>
  Requests: for the domain \<open>www.example.com\<close>, port 80; for the IPv6 address
  \<open>2001:db8::1\<close>, port 443; and for the IPv4-mapped IPv6 address \<open>::ffff:1.2.3.4\<close>,
  port 443.
\<close>

definition domain_request :: "byte list" where
  "domain_request =
     [CHR 0x05, CHR 0x01, CHR 0x00, CHR 0x03, CHR 0x0F] @ ''www.example.com'' @ [CHR 0x00, CHR 0x50]"

definition ipv6_address :: "byte list" where
  "ipv6_address =
     [CHR 0x20, CHR 0x01, CHR 0x0D, CHR 0xB8, CHR 0x00, CHR 0x00, CHR 0x00, CHR 0x00,
      CHR 0x00, CHR 0x00, CHR 0x00, CHR 0x00, CHR 0x00, CHR 0x00, CHR 0x00, CHR 0x01]"

definition mapped_address :: "byte list" where
  "mapped_address =
     [CHR 0x00, CHR 0x00, CHR 0x00, CHR 0x00, CHR 0x00, CHR 0x00, CHR 0x00, CHR 0x00,
      CHR 0x00, CHR 0x00, CHR 0xFF, CHR 0xFF, CHR 0x01, CHR 0x02, CHR 0x03, CHR 0x04]"

definition requesting :: "byte list \<Rightarrow> net_conn" where
  "requesting request = \<lparr>pending = request, written = [CHR 0x05, CHR 0x00], writes_left = 1, closed = False\<rparr>"

definition reachable :: "string \<Rightarrow> string \<Rightarrow> bool" where
  "reachable iface target = True"

definition unreachable :: "string \<Rightarrow> string \<Rightarrow> bool" where
  "unreachable iface target = False"

text \<open>
  A wg-quick file with two addresses, a DNS setting and a peer whose section repeats the key
  \<open>Address\<close>; and a host on which it is the file of the first tunnel, the file of the second
  tunnel cannot be read, and nothing else fails.
\<close>

definition example_wg_conf :: string where
  "example_wg_conf =
     ''[Interface]'' @ [nl] @
     ''PrivateKey = abc='' @ [nl] @
     ''Address = 10.0.0.2/32, fd00::2/128'' @ [nl] @
     ''DNS = 1.1.1.1'' @ [nl] @
     [nl] @
     ''[Peer]'' @ [nl] @
     ''# upstream'' @ [nl] @
     ''Address = kept'' @ [nl] @
     ''Endpoint = vpn.example.com:51820''"

definition example_files :: "string \<Rightarrow> string option" where
  "example_files path = (if path = ''/etc/wireguard/wg0.conf'' then Some example_wg_conf else None)"

definition example_host :: host where
  "example_host =
     \<lparr>stat_error = (\<lambda>path. False), files = example_files, create_temp_error = False,
      write_temp_error = False, setconf_error = (\<lambda>iface config. False),
      link_up_error = (\<lambda>iface. False)\<rparr>"








text \<open>A round in which every probe returns status 200 at second 1700000000.\<close>

definition good_round :: "int \<Rightarrow> probe \<times> int \<times> int" where
  "good_round i = (Response 200 5000000, 1700000000, 1700000000)"

text \<open>Four failed probes in a row, 30 seconds apart.\<close>

definition four_failures :: "(probe \<times> int \<times> int) list" where
  "four_failures =
     [(DoError, 1000, 1000), (Response 503 7, 1030, 1030), (DoError, 1060, 1060), (DoError, 1090, 1090)]"

definition two_successes :: "(probe \<times> int \<times> int) list" where
  "two_successes = [(Response 200 5, 1000, 1000), (Response 200 6, 1030, 1030)]"

section \<open>Properties\<close>


subsection \<open>The health state machine\<close>

lemma wrap32_id: "- 2147483648 \<le> x \<Longrightarrow> x < 2147483648 \<Longrightarrow> wrap32 x = x"
  by (simp add: wrap32_def)

text \<open>The connection that one call of \<open>performHealthCheck\<close> leaves behind.\<close>

lemma phc_conn:
  "fst (performHealthCheck m conn p now snow) =
     (if probe_ok p
      then conn\<lparr>lastCheck := now, failureCount := 0, healthy := True\<rparr>
      else conn\<lparr>lastCheck := now, failureCount := wrap32 (failureCount conn + 1),
                healthy := healthy conn \<and> wrap32 (failureCount conn + 1) < int32 (failureThreshold m)\<rparr>)"
  by (cases p) (auto simp: performHealthCheck_def checkHealth_def probe_ok_def Let_def)

lemma run_probes_Cons:
  "run_probes m conn ((p, now, snow) # xs) =
     fst (performHealthCheck m conn p now snow)
     # run_probes (m\<lparr>stats := snd (performHealthCheck m conn p now snow)\<rparr>)
         (fst (performHealthCheck m conn p now snow)) xs"
  by (simp add: case_prod_beta)

lemma length_run_probes: "length (run_probes m conn xs) = length xs"
  by (induction xs arbitrary: m conn) (auto simp: case_prod_beta)

lemma flips_const: "flips (replicate n b) = 0"
proof (induction n)
  case 0
  show ?case by simp
next
  case (Suc n)
  then show ?case by (cases n) simp_all
qed

lemma flips_Cons_same: "flips (b # b # bs) = flips (b # bs)"
  by simp

lemma flips_Cons_le: "flips (a # bs) \<le> Suc (flips bs)"
  by (cases bs) simp_all

text \<open>Failures never raise the flag.\<close>
lemma unhealthy_stays:
  "all_fail xs \<Longrightarrow> \<not> healthy conn \<Longrightarrow> map healthy (run_probes m conn xs) = replicate (length xs) False"
proof (induction xs arbitrary: m conn)
  case Nil
  show ?case by simp
next
  case (Cons x xs)
  obtain p now snow where x: "x = (p, now, snow)" by (cases x)
  from Cons.prems have f: "\<not> probe_ok p" and r: "all_fail xs" by (simp_all add: all_fail_def x)
  have h: "\<not> healthy (fst (performHealthCheck m conn p now snow))"
    using Cons.prems(2) f by (simp add: phc_conn)
  show ?case
    unfolding x run_probes_Cons using Cons.IH [OF r h] h by simp
qed

lemma healthy_stays:
  "all_succeed xs \<Longrightarrow> map healthy (run_probes m conn xs) = replicate (length xs) True"
proof (induction xs arbitrary: m conn)
  case Nil
  show ?case by simp
next
  case (Cons x xs)
  obtain p now snow where x: "x = (p, now, snow)" by (cases x)
  from Cons.prems have f: "probe_ok p" and r: "all_succeed xs" by (simp_all add: all_succeed_def x)
  have h: "healthy (fst (performHealthCheck m conn p now snow))"
    using f by (simp add: phc_conn)
  show ?case
    unfolding x run_probes_Cons using Cons.IH [OF r] h by simp
qed

lemma flips_fail_le: "all_fail xs \<Longrightarrow> flips (healthy_trace m conn xs) \<le> 1"
proof (induction xs arbitrary: m conn)
  case Nil
  show ?case by (simp add: healthy_trace_def)
next
  case (Cons x xs)
  obtain p now snow where x: "x = (p, now, snow)" by (cases x)
  from Cons.prems have f: "\<not> probe_ok p" and r: "all_fail xs" by (simp_all add: all_fail_def x)
  let ?c = "fst (performHealthCheck m conn p now snow)"
  let ?m = "m\<lparr>stats := snd (performHealthCheck m conn p now snow)\<rparr>"
  have tr: "healthy_trace m conn (x # xs) = healthy conn # healthy_trace ?m ?c xs"
    unfolding x healthy_trace_def run_probes_Cons by simp
  show ?case
  proof (cases "healthy ?c = healthy conn")
    case True
    then have "flips (healthy_trace m conn (x # xs)) = flips (healthy_trace ?m ?c xs)"
      unfolding tr by (simp add: healthy_trace_def)
    then show ?thesis using Cons.IH [OF r] by simp
  next
    case False
    then have nh: "\<not> healthy ?c" using f by (auto simp: phc_conn)
    have "healthy_trace ?m ?c xs = replicate (Suc (length xs)) False"
      using unhealthy_stays [OF r nh] nh by (simp add: healthy_trace_def)
    then have "flips (healthy_trace ?m ?c xs) = 0" by (simp only: flips_const)
    then show ?thesis unfolding tr using flips_Cons_le [of "healthy conn" "healthy_trace ?m ?c xs"] by simp
  qed
qed

lemma flips_succeed_le: "all_succeed xs \<Longrightarrow> flips (healthy_trace m conn xs) \<le> 1"
proof -
  assume a: "all_succeed xs"
  have "healthy_trace m conn xs = healthy conn # replicate (length xs) True"
    using healthy_stays [OF a] by (simp add: healthy_trace_def)
  moreover have "flips (replicate (length xs) True) = 0" by (rule flips_const)
  ultimately show ?thesis
    using flips_Cons_le [of "healthy conn" "replicate (length xs) True"] by simp
qed


lemma fail_run_nth:
  "all_fail xs \<Longrightarrow> healthy conn \<Longrightarrow> 0 \<le> failureCount conn \<Longrightarrow>
   failureCount conn < failureThreshold m \<Longrightarrow> failureThreshold m < 2147483648 \<Longrightarrow>
   k < length xs \<Longrightarrow>
   healthy (run_probes m conn xs ! k) = (failureCount conn + int k + 1 < failureThreshold m) \<and>
   (failureCount conn + int k + 1 \<le> failureThreshold m \<longrightarrow>
      failureCount (run_probes m conn xs ! k) = failureCount conn + int k + 1)"
proof (induction xs arbitrary: m conn k)
  case Nil
  then show ?case by simp
next
  case (Cons x xs)
  obtain p now snow where x: "x = (p, now, snow)" by (cases x)
  from Cons.prems have f: "\<not> probe_ok p" and r: "all_fail xs" by (simp_all add: all_fail_def x)
  let ?c = "fst (performHealthCheck m conn p now snow)"
  let ?m = "m\<lparr>stats := snd (performHealthCheck m conn p now snow)\<rparr>"
  have w: "wrap32 (failureCount conn + 1) = failureCount conn + 1"
    using Cons.prems by (intro wrap32_id) simp_all
  have t: "int32 (failureThreshold m) = failureThreshold m"
    unfolding int32_def using Cons.prems by (intro wrap32_id) simp_all
  have c: "failureCount ?c = failureCount conn + 1"
    and h: "healthy ?c = (failureCount conn + 1 < failureThreshold m)"
    using f Cons.prems(2) by (simp_all add: phc_conn w t)
  show ?case
  proof (cases k)
    case 0
    then show ?thesis unfolding x run_probes_Cons using c h by simp
  next
    case (Suc j)
    then have j: "j < length xs" using Cons.prems by simp
    show ?thesis
    proof (cases "healthy ?c")
      case True
      have "healthy (run_probes ?m ?c xs ! j) = (failureCount ?c + int j + 1 < failureThreshold ?m) \<and>
            (failureCount ?c + int j + 1 \<le> failureThreshold ?m \<longrightarrow>
               failureCount (run_probes ?m ?c xs ! j) = failureCount ?c + int j + 1)"
        using Cons.prems True h c by (intro Cons.IH [OF r _ _ _ _ j]) simp_all
      then show ?thesis unfolding x run_probes_Cons Suc using c by (simp add: add.commute add.left_commute)
    next
      case False
      have "map healthy (run_probes ?m ?c xs) ! j = replicate (length xs) False ! j"
        using unhealthy_stays [OF r False] by simp
      then have "\<not> healthy (run_probes ?m ?c xs ! j)"
        using j by (simp add: length_run_probes)
      then show ?thesis unfolding x run_probes_Cons Suc using False h by simp
    qed
  qed
qed


lemma flips_threshold:
  "length bs = Suc n \<Longrightarrow> (\<And>k. k \<le> n \<Longrightarrow> bs ! k = (k < t)) \<Longrightarrow> 0 < t \<Longrightarrow> t \<le> n \<Longrightarrow> flips bs = 1"
proof (induction n arbitrary: bs t)
  case 0
  then show ?case by simp
next
  case (Suc n)
  from Suc.prems(1) obtain a b rest where bs: "bs = a # b # rest" and len: "length (b # rest) = Suc n"
    by (cases bs; cases "tl bs") auto
  have a: "a = True" using Suc.prems(2) [of 0] Suc.prems(3) by (simp add: bs)
  have nth: "\<And>k. k \<le> n \<Longrightarrow> (b # rest) ! k = (Suc k < t)"
    using Suc.prems(2) by (simp add: bs) (metis Suc_le_mono nth_Cons_Suc)
  show ?case
  proof (cases "t = 1")
    case True
    have "\<And>y. y \<in> set (b # rest) \<Longrightarrow> y = False"
    proof -
      fix y assume "y \<in> set (b # rest)"
      then obtain k where "k < length (b # rest)" "(b # rest) ! k = y"
        unfolding in_set_conv_nth by blast
      then show "y = False" using nth [of k] True len by auto
    qed
    then have "b # rest = replicate (Suc n) False"
      using len by (intro replicate_eqI)
    then have "flips (b # rest) = 0" by (simp only: flips_const)
    moreover have "b = False" using nth [of 0] True by simp
    ultimately show ?thesis by (simp add: bs a)
  next
    case False
    then have t2: "0 < t - 1" "t - 1 \<le> n" using Suc.prems by simp_all
    have "flips (b # rest) = 1"
    proof (rule Suc.IH [OF len _ t2])
      fix k assume "k \<le> n"
      then show "(b # rest) ! k = (k < t - 1)" using nth by auto
    qed
    moreover have "b = True" using nth [of 0] False Suc.prems(3) by simp
    ultimately show ?thesis by (simp add: bs a)
  qed
qed

lemma fail_trace_nth:
  assumes "all_fail xs" "healthy conn" "failureCount conn = 0"
    "1 \<le> failureThreshold m" "failureThreshold m < 2147483648" "k \<le> length xs"
  shows "healthy_trace m conn xs ! k = (int k < failureThreshold m)"
proof (cases k)
  case 0
  then show ?thesis using assms by (simp add: healthy_trace_def)
next
  case (Suc j)
  then have j: "j < length xs" using assms by simp
  have "healthy (run_probes m conn xs ! j) = (failureCount conn + int j + 1 < failureThreshold m)"
    using fail_run_nth [OF assms(1,2) _ _ assms(5) j] assms(3,4) by simp
  then show ?thesis using Suc j assms(3) by (simp add: healthy_trace_def length_run_probes algebra_simps)
qed

text \<open>
  Claim C9. In a run of failed probes, and in a run of successful probes, applied by the
  prober to one tunnel, the healthy flag changes at most once. A run of failures that starts
  from a healthy tunnel with \<open>failureCount = 0\<close> and is at least \<open>failureThreshold\<close> long
  (a threshold from 1 up to the largest \<open>int32\<close>) changes the flag exactly once: the flag is
  still set after \<open>k\<close> probes for every \<open>k\<close> below the threshold and cleared from the probe
  at which the count equals the threshold on. A non-empty run of successes that starts from
  an unhealthy tunnel changes the flag exactly once, at its first probe.
\<close>

theorem health_transitions_monotone:
  "(all_fail xs \<longrightarrow> flips (healthy_trace m conn xs) \<le> 1) \<and>
   (all_succeed xs \<longrightarrow> flips (healthy_trace m conn xs) \<le> 1) \<and>
   (all_fail xs \<and> healthy conn \<and> failureCount conn = 0 \<and> 1 \<le> failureThreshold m \<and>
    failureThreshold m < 2147483648 \<and> failureThreshold m \<le> int (length xs) \<longrightarrow>
      flips (healthy_trace m conn xs) = 1 \<and>
      (\<forall>k \<le> length xs. healthy_trace m conn xs ! k = (int k < failureThreshold m)) \<and>
      failureCount (run_probes m conn xs ! (nat (failureThreshold m) - 1)) = failureThreshold m) \<and>
   (all_succeed xs \<and> \<not> healthy conn \<and> xs \<noteq> [] \<longrightarrow>
      flips (healthy_trace m conn xs) = 1 \<and>
      (\<forall>k \<le> length xs. healthy_trace m conn xs ! k = (0 < k)))"
proof (intro conjI impI)
  show "all_fail xs \<Longrightarrow> flips (healthy_trace m conn xs) \<le> 1" by (rule flips_fail_le)
  show "all_succeed xs \<Longrightarrow> flips (healthy_trace m conn xs) \<le> 1" by (rule flips_succeed_le)
next
  assume a: "all_fail xs \<and> healthy conn \<and> failureCount conn = 0 \<and> 1 \<le> failureThreshold m \<and>
    failureThreshold m < 2147483648 \<and> failureThreshold m \<le> int (length xs)"
  then have nth: "\<And>k. k \<le> length xs \<Longrightarrow> healthy_trace m conn xs ! k = (int k < failureThreshold m)"
    by (intro fail_trace_nth) simp_all
  show "\<forall>k \<le> length xs. healthy_trace m conn xs ! k = (int k < failureThreshold m)"
    using nth by blast
  have "\<And>k. k \<le> length xs \<Longrightarrow> healthy_trace m conn xs ! k = (k < nat (failureThreshold m))"
    using nth by (simp add: zless_nat_eq_int_zless)
  moreover have "0 < nat (failureThreshold m)" "nat (failureThreshold m) \<le> length xs"
    using a by linarith+
  moreover have "length (healthy_trace m conn xs) = Suc (length xs)"
    by (simp add: healthy_trace_def length_run_probes)
  ultimately show "flips (healthy_trace m conn xs) = 1"
    by (intro flips_threshold [where n = "length xs" and t = "nat (failureThreshold m)"])
  have j: "nat (failureThreshold m) - 1 < length xs" using a by linarith
  have "failureCount conn + int (nat (failureThreshold m) - 1) + 1 \<le> failureThreshold m \<longrightarrow>
        failureCount (run_probes m conn xs ! (nat (failureThreshold m) - 1)) =
        failureCount conn + int (nat (failureThreshold m) - 1) + 1"
    using fail_run_nth [OF _ _ _ _ _ j, of conn m] a by simp
  moreover have "int (nat (failureThreshold m) - 1) + 1 = failureThreshold m"
    using a by arith
  ultimately show "failureCount (run_probes m conn xs ! (nat (failureThreshold m) - 1)) = failureThreshold m"
    using a by simp
next
  assume a: "all_succeed xs \<and> \<not> healthy conn \<and> xs \<noteq> []"
  then have tr: "healthy_trace m conn xs = False # replicate (length xs) True"
    using healthy_stays [of xs m conn] by (simp add: healthy_trace_def)
  show "\<forall>k \<le> length xs. healthy_trace m conn xs ! k = (0 < k)"
    unfolding tr by (auto simp: nth_Cons')
  obtain n where n: "length xs = Suc n" using a by (cases xs) auto
  have "flips (replicate (Suc n) True) = 0" by (rule flips_const)
  then show "flips (healthy_trace m conn xs) = 1"
    unfolding tr n by simp
qed


text \<open>
  Claim C1. One probe updates a tunnel as the state machine says. On a success the failure
  count becomes 0 and the tunnel is healthy afterwards. On a failure the 32-bit failure
  count is incremented by one, and a healthy tunnel becomes unhealthy exactly when the new
  count is at least \<open>int32(failureThreshold)\<close>; while the count and the threshold are
  within \<open>int32\<close> these are the plain integers. The flag changes in no other case, and the
  identity of the tunnel is untouched.
\<close>

theorem performHealthCheck_state_machine:
  "(probe_ok p \<longrightarrow>
      failureCount (fst (performHealthCheck m conn p now snow)) = 0 \<and>
      healthy (fst (performHealthCheck m conn p now snow))) \<and>
   (\<not> probe_ok p \<longrightarrow>
      failureCount (fst (performHealthCheck m conn p now snow)) = wrap32 (failureCount conn + 1) \<and>
      healthy (fst (performHealthCheck m conn p now snow)) =
        (healthy conn \<and> wrap32 (failureCount conn + 1) < int32 (failureThreshold m))) \<and>
   (\<not> probe_ok p \<and> - 2147483648 \<le> failureCount conn \<and> failureCount conn < 2147483647 \<and>
    - 2147483648 \<le> failureThreshold m \<and> failureThreshold m < 2147483648 \<longrightarrow>
      failureCount (fst (performHealthCheck m conn p now snow)) = failureCount conn + 1 \<and>
      healthy (fst (performHealthCheck m conn p now snow)) =
        (healthy conn \<and> failureCount conn + 1 < failureThreshold m)) \<and>
   (healthy (fst (performHealthCheck m conn p now snow)) \<noteq> healthy conn) =
      ((probe_ok p \<and> \<not> healthy conn) \<or>
       (\<not> probe_ok p \<and> healthy conn \<and>
        failureCount (fst (performHealthCheck m conn p now snow)) \<ge> int32 (failureThreshold m))) \<and>
   Index (fst (performHealthCheck m conn p now snow)) = Index conn \<and>
   Name (fst (performHealthCheck m conn p now snow)) = Name conn \<and>
   InterfaceName (fst (performHealthCheck m conn p now snow)) = InterfaceName conn \<and>
   ConfigPath (fst (performHealthCheck m conn p now snow)) = ConfigPath conn"
proof -
  have id: "- 2147483648 \<le> failureCount conn \<and> failureCount conn < 2147483647 \<and>
        - 2147483648 \<le> failureThreshold m \<and> failureThreshold m < 2147483648 \<Longrightarrow>
        wrap32 (failureCount conn + 1) = failureCount conn + 1 \<and>
        int32 (failureThreshold m) = failureThreshold m"
    unfolding int32_def by (intro conjI wrap32_id) simp_all
  show ?thesis
  proof (cases "probe_ok p")
    case True
    then show ?thesis by (simp add: phc_conn)
  next
    case False
    then show ?thesis using id by (auto simp: phc_conn)
  qed
qed

text \<open>Claim C1 at the third failure of a healthy tunnel and at a success of an unhealthy one.\<close>

theorem performHealthCheck_state_machine_witness:
  "\<not> probe_ok DoError \<and> probe_ok (Response 200 5) \<and>
   failureCount (fst (performHealthCheck two_tunnels tunnel_a DoError 1000 1001)) = 3 \<and>
   \<not> healthy (fst (performHealthCheck two_tunnels tunnel_a DoError 1000 1001)) \<and>
   failureCount (fst (performHealthCheck two_tunnels tunnel_b (Response 200 5) 1000 1001)) = 0 \<and>
   healthy (fst (performHealthCheck two_tunnels tunnel_b (Response 200 5) 1000 1001))"
proof -
  have facts: "\<not> probe_ok DoError" "probe_ok (Response 200 5)" "failureCount tunnel_a = 2"
    "healthy tunnel_a" "failureThreshold two_tunnels = 3" "\<not> healthy tunnel_b"
    by (simp_all add: probe_ok_def two_tunnels_def tunnel_a_def tunnel_b_def)
  show ?thesis
    using performHealthCheck_state_machine [of DoError two_tunnels tunnel_a 1000 1001]
      performHealthCheck_state_machine [of "Response 200 5" two_tunnels tunnel_b 1000 1001] facts
    by (simp add: wrap32_def int32_def)
qed

text \<open>Claim C9 at a threshold of 3 and four failures, and at two successes.\<close>

theorem health_transitions_monotone_witness:
  "all_fail four_failures \<and> all_succeed two_successes \<and>
   healthy (tunnel_a\<lparr>failureCount := 0\<rparr>) \<and> \<not> healthy tunnel_b \<and>
   failureThreshold two_tunnels = 3 \<and>
   flips (healthy_trace two_tunnels (tunnel_a\<lparr>failureCount := 0\<rparr>) four_failures) = 1 \<and>
   healthy_trace two_tunnels (tunnel_a\<lparr>failureCount := 0\<rparr>) four_failures ! 2 \<and>
   \<not> healthy_trace two_tunnels (tunnel_a\<lparr>failureCount := 0\<rparr>) four_failures ! 3 \<and>
   failureCount (run_probes two_tunnels (tunnel_a\<lparr>failureCount := 0\<rparr>) four_failures ! 2) = 3 \<and>
   flips (healthy_trace two_tunnels tunnel_b two_successes) = 1 \<and>
   healthy_trace two_tunnels tunnel_b two_successes ! 1"
proof -
  have f: "all_fail four_failures" and s: "all_succeed two_successes"
    by (simp_all add: all_fail_def all_succeed_def four_failures_def two_successes_def probe_ok_def)
  have h: "healthy (tunnel_a\<lparr>failureCount := 0\<rparr>)" "\<not> healthy tunnel_b"
    "failureCount (tunnel_a\<lparr>failureCount := 0\<rparr>) = 0"
    "failureThreshold two_tunnels = 3" "length four_failures = 4" "two_successes \<noteq> []"
    "length two_successes = 2"
    by (simp_all add: tunnel_a_def tunnel_b_def two_tunnels_def four_failures_def two_successes_def)
  show ?thesis
    using health_transitions_monotone [of four_failures two_tunnels "tunnel_a\<lparr>failureCount := 0\<rparr>"]
      health_transitions_monotone [of two_successes two_tunnels tunnel_b] f s h
    by simp
qed


subsection \<open>Selection\<close>

lemma go_rem_nonneg: "0 \<le> a \<Longrightarrow> 0 < b \<Longrightarrow> go_rem a b = a mod b"
  by (cases "a = 0") (simp_all add: go_rem_def)

text \<open>
  Claim C10. An index outside \<open>[0, N)\<close> is answered by the ``invalid connection index''
  error and by nothing else: the bounds check comes first, so such an index yields neither a
  tunnel nor a ``not healthy'' error, and an index inside the range never yields the
  ``invalid connection index'' error.
\<close>

theorem GetHealthyConnection_bounds:
  "(index < 0 \<or> int (length (connections m)) \<le> index \<longrightarrow>
      GetHealthyConnection m index = Inl (InvalidConnectionIndex index)) \<and>
   (0 \<le> index \<and> index < int (length (connections m)) \<longrightarrow>
      GetHealthyConnection m index =
        (if healthy (connections m ! nat index) then Inr (connections m ! nat index)
         else Inl (ConnectionNotHealthy (Name (connections m ! nat index)))))"
  by (auto simp: GetHealthyConnection_def Let_def)

text \<open>Claim C10 at the indices \<open>-1\<close> and \<open>2\<close> of a manager with two tunnels.\<close>

theorem GetHealthyConnection_bounds_witness:
  "length (connections two_tunnels) = 2 \<and>
   GetHealthyConnection two_tunnels (- 1) = Inl (InvalidConnectionIndex (- 1)) \<and>
   GetHealthyConnection two_tunnels 2 = Inl (InvalidConnectionIndex 2)"
proof -
  have l: "length (connections two_tunnels) = 2" by (simp add: two_tunnels_def)
  show ?thesis
    using GetHealthyConnection_bounds [of "- 1" two_tunnels]
      GetHealthyConnection_bounds [of 2 two_tunnels] l
    by simp
qed

text \<open>
  Claim C3. \<open>GetRandomHealthyConnection\<close> collects the tunnels whose flag is set, in the
  order of the slice. It fails with ``no healthy connections'' exactly when that snapshot is
  empty; otherwise, for a clock reading that is not negative, it returns the element at
  position \<open>nano mod size\<close> of the snapshot.
\<close>

lemma healthy_snapshot_filter: "healthy_snapshot acc cs = acc @ filter healthy cs"
  by (induction cs arbitrary: acc) simp_all

theorem GetRandomHealthyConnection_snapshot:
  "healthy_snapshot [] (connections m) = filter healthy (connections m) \<and>
   (GetRandomHealthyConnection m nano = Inl NoHealthyConnections) = (filter healthy (connections m) = []) \<and>
   (0 \<le> nano \<and> filter healthy (connections m) \<noteq> [] \<longrightarrow>
      GetRandomHealthyConnection m nano =
        Inr (filter healthy (connections m) ! (nat nano mod length (filter healthy (connections m)))))"
proof (cases "filter healthy (connections m) = []")
  case True
  then show ?thesis by (simp add: GetRandomHealthyConnection_def healthy_snapshot_filter)
next
  case False
  let ?hs = "filter healthy (connections m)"
  have pos: "0 < int (length ?hs)" using False by simp
  have ne: "GetRandomHealthyConnection m nano \<noteq> Inl NoHealthyConnections"
    using False by (simp add: GetRandomHealthyConnection_def Let_def healthy_snapshot_filter)
  have "GetRandomHealthyConnection m nano = Inr (?hs ! (nat nano mod length ?hs))" if n: "0 \<le> nano"
  proof -
    have r: "go_rem nano (int (length ?hs)) = nano mod int (length ?hs)"
      using n pos by (rule go_rem_nonneg)
    have b: "\<not> nano mod int (length ?hs) < 0" "\<not> int (length ?hs) \<le> nano mod int (length ?hs)"
      using pos by (simp_all add: not_less not_le)
    have e: "nat (nano mod int (length ?hs)) = nat nano mod length ?hs"
      using n by (simp add: nat_mod_distrib)
    show ?thesis
      using False by (simp add: GetRandomHealthyConnection_def Let_def healthy_snapshot_filter r e b)
  qed
  then show ?thesis using False ne by (simp add: healthy_snapshot_filter)
qed


text \<open>Claim C3 with both tunnels healthy and an odd clock reading: the second one is taken.\<close>

theorem GetRandomHealthyConnection_snapshot_witness:
  "(0::int) \<le> 1700000000000000001 \<and>
   filter healthy (connections both_healthy) = [tunnel_a, tunnel_b\<lparr>healthy := True, failureCount := 0\<rparr>] \<and>
   GetRandomHealthyConnection both_healthy 1700000000000000001 =
     Inr (tunnel_b\<lparr>healthy := True, failureCount := 0\<rparr>)"
proof -
  have f: "filter healthy (connections both_healthy) = [tunnel_a, tunnel_b\<lparr>healthy := True, failureCount := 0\<rparr>]"
    by (simp add: both_healthy_def two_tunnels_def tunnel_a_def tunnel_b_def)
  have e: "(1700000000000000001::nat) mod Suc (Suc 0) = Suc 0"
    by presburger
  show ?thesis
    using GetRandomHealthyConnection_snapshot [of both_healthy 1700000000000000001]
    by (simp add: f e)
qed

subsection \<open>Pinned listeners\<close>

lemma length_new_connections: "length (new_connections i cs) = length cs"
  by (induction cs arbitrary: i) simp_all

lemma Index_new_connections: "j < length cs \<Longrightarrow> Index (new_connections i cs ! j) = i + int j"
proof (induction cs arbitrary: i j)
  case Nil
  then show ?case by simp
next
  case (Cons c cs)
  then show ?case by (cases j) simp_all
qed

text \<open>A relay is started only through the interface of the tunnel that selection returned.\<close>

lemma relayed_selected:
  "relayed (handleConnection m dial nano c index) = Some (iface, target) \<Longrightarrow>
   \<exists>wgConn. select_connection (wgManager m) index nano = Inr wgConn \<and> iface = InterfaceName wgConn"
  by (auto simp: handleConnection_def Let_def
      split: prod.splits option.splits sum.splits if_splits)

text \<open>
  Claim C2. \<open>main\<close> starts the listener with index \<open>k\<close>, for \<open>k\<close> from 0 to the number of
  tunnels, on the port that the Go addition \<open>BasePort + k\<close> yields: the sum reduced to 64
  bits, which is \<open>BasePort + k\<close> itself whenever that is below \<open>2 ^ 63\<close>. A connection
  accepted on a listener with index \<open>k > 0\<close> selects by \<open>GetHealthyConnection (k - 1)\<close>,
  which returns the tunnel at position \<open>k - 1\<close> (the one \<open>NewManager\<close> gave the index
  \<open>k - 1\<close>) if it is healthy and the ``not healthy'' error otherwise; a relay started by
  such a connection goes through the interface of that tunnel and of no other.
\<close>

theorem pinned_listener_selects_own_tunnel:
  "((k, port) \<in> set (proxy_listeners config) \<longrightarrow>
      port = wrap64 (BasePort (Proxy config) + k) \<and>
      (- 9223372036854775808 \<le> BasePort (Proxy config) \<and>
       BasePort (Proxy config) + k < 9223372036854775808 \<longrightarrow>
         port = BasePort (Proxy config) + k) \<and>
      0 \<le> k \<and> k \<le> int (length (connections (NewManager (WireGuard config) t)))) \<and>
   (0 < k \<and> k \<le> int (length (connections (NewManager (WireGuard config) t))) \<longrightarrow>
      Index (connections (NewManager (WireGuard config) t) ! nat (k - 1)) = k - 1) \<and>
   (0 < k \<and> k \<le> int (length (connections (wgManager m))) \<longrightarrow>
      select_connection (wgManager m) k nano = GetHealthyConnection (wgManager m) (k - 1) \<and>
      GetHealthyConnection (wgManager m) (k - 1) =
        (if healthy (connections (wgManager m) ! nat (k - 1))
         then Inr (connections (wgManager m) ! nat (k - 1))
         else Inl (ConnectionNotHealthy (Name (connections (wgManager m) ! nat (k - 1))))) \<and>
      (\<forall>iface target. relayed (handleConnection m dial nano c k) = Some (iface, target) \<longrightarrow>
         healthy (connections (wgManager m) ! nat (k - 1)) \<and>
         iface = InterfaceName (connections (wgManager m) ! nat (k - 1))))"
proof (intro conjI impI)
  assume "(k, port) \<in> set (proxy_listeners config)"
  then show p: "port = wrap64 (BasePort (Proxy config) + k)" and k: "0 \<le> k"
    and "k \<le> int (length (connections (NewManager (WireGuard config) t)))"
    by (auto simp: proxy_listeners_def NewManager_def length_new_connections)
  assume "- 9223372036854775808 \<le> BasePort (Proxy config) \<and>
          BasePort (Proxy config) + k < 9223372036854775808"
  then show "port = BasePort (Proxy config) + k"
    using p k by (simp add: wrap64_def)
next
  assume "0 < k \<and> k \<le> int (length (connections (NewManager (WireGuard config) t)))"
  then have "nat (k - 1) < length (Connections (WireGuard config))"
    unfolding NewManager_def by (simp add: length_new_connections) linarith
  then have "Index (new_connections 0 (Connections (WireGuard config)) ! nat (k - 1)) = 0 + int (nat (k - 1))"
    by (rule Index_new_connections)
  then show "Index (connections (NewManager (WireGuard config) t) ! nat (k - 1)) = k - 1"
    using \<open>0 < k \<and> _\<close> by (simp add: NewManager_def)
next
  assume k: "0 < k \<and> k \<le> int (length (connections (wgManager m)))"
  show sel: "select_connection (wgManager m) k nano = GetHealthyConnection (wgManager m) (k - 1)"
    using k by (simp add: select_connection_def)
  show get: "GetHealthyConnection (wgManager m) (k - 1) =
        (if healthy (connections (wgManager m) ! nat (k - 1))
         then Inr (connections (wgManager m) ! nat (k - 1))
         else Inl (ConnectionNotHealthy (Name (connections (wgManager m) ! nat (k - 1)))))"
    using k by (simp add: GetHealthyConnection_def Let_def)
  show "\<forall>iface target. relayed (handleConnection m dial nano c k) = Some (iface, target) \<longrightarrow>
         healthy (connections (wgManager m) ! nat (k - 1)) \<and>
         iface = InterfaceName (connections (wgManager m) ! nat (k - 1))"
  proof (intro allI impI)
    fix iface target
    assume "relayed (handleConnection m dial nano c k) = Some (iface, target)"
    then obtain wgConn where "select_connection (wgManager m) k nano = Inr wgConn"
      and i: "iface = InterfaceName wgConn"
      using relayed_selected by blast
    then have "(if healthy (connections (wgManager m) ! nat (k - 1))
         then Inr (connections (wgManager m) ! nat (k - 1))
         else Inl (ConnectionNotHealthy (Name (connections (wgManager m) ! nat (k - 1))))) = Inr wgConn"
      using sel get by simp
    then show "healthy (connections (wgManager m) ! nat (k - 1)) \<and>
         iface = InterfaceName (connections (wgManager m) ! nat (k - 1))"
      using i by (auto split: if_splits)
  qed
qed


text \<open>The handler at the example clients.\<close>

lemma connecting_client_relayed:
  "handleConnection example_proxy reachable 0 connecting_client 1 =
     \<lparr>client = \<lparr>pending = [], written = [CHR 0x05, CHR 0x00] @ connect_response repSuccess,
                 writes_left = 0, closed = True\<rparr>,
      tracker = IncrementRequests (NewTracker 2) 0, relayed = Some (''wg0'', ''93.184.216.34:443'')\<rparr>"
  by code_simp

text \<open>
  Claim C2 at the listeners 1 and 2 of the two example tunnels, and the port of listener 1
  under a base port of \<open>2 ^ 63 - 1\<close>.
\<close>

theorem pinned_listener_selects_own_tunnel_witness:
  "(1, 9931) \<in> set (proxy_listeners example_config) \<and>
   (1, - 9223372036854775808) \<in>
     set (proxy_listeners (example_config\<lparr>Proxy := (Proxy example_config)\<lparr>BasePort := 9223372036854775807\<rparr>\<rparr>)) \<and>
   (0::int) < 1 \<and> 1 \<le> int (length (connections (wgManager example_proxy))) \<and>
   2 \<le> int (length (connections (wgManager example_proxy))) \<and>
   relayed (handleConnection example_proxy reachable 0 connecting_client 1) = Some (''wg0'', ''93.184.216.34:443'') \<and>
   select_connection (wgManager example_proxy) 1 0 = Inr tunnel_a \<and>
   InterfaceName tunnel_a = ''wg0'' \<and>
   select_connection (wgManager example_proxy) 2 0 = Inl (ConnectionNotHealthy ''b'')"
proof -
  have l: "(1, 9931) \<in> set (proxy_listeners example_config)"
    by (simp add: proxy_listeners_def example_config_def wrap64_def)
  have w: "(1, - 9223372036854775808) \<in>
     set (proxy_listeners (example_config\<lparr>Proxy := (Proxy example_config)\<lparr>BasePort := 9223372036854775807\<rparr>\<rparr>))"
    by (simp add: proxy_listeners_def example_config_def wrap64_def)
  have c: "connections (wgManager example_proxy) = [tunnel_a, tunnel_b]"
    by (simp add: example_proxy_def two_tunnels_def)
  have h: "healthy tunnel_a" "\<not> healthy tunnel_b" "InterfaceName tunnel_a = ''wg0''" "Name tunnel_b = ''b''"
    by (simp_all add: tunnel_a_def tunnel_b_def)
  have r: "relayed (handleConnection example_proxy reachable 0 connecting_client 1) = Some (''wg0'', ''93.184.216.34:443'')"
    by (simp add: connecting_client_relayed)
  show ?thesis
    using pinned_listener_selects_own_tunnel
            [of 1 9931 example_config "NewTracker 2" example_proxy 0 reachable connecting_client]
      pinned_listener_selects_own_tunnel
            [of 2 9932 example_config "NewTracker 2" example_proxy 0 reachable connecting_client]
      l w r
    by (simp add: c h)
qed

subsection \<open>The SOCKS5 reply\<close>

lemma ReadFull_keeps:
  "ReadFull c n = (r, c') \<Longrightarrow> written c' = written c \<and> writes_left c' = writes_left c"
  by (auto simp: ReadFull_def split: if_splits)

lemma Write_written:
  "Write c b = (r, c') \<Longrightarrow> written c' = (if r = None then written c @ b else written c)"
  by (auto simp: Write_def split: if_splits)

lemma read_port_keeps:
  "read_port a c = (r, c') \<Longrightarrow> written c' = written c \<and> writes_left c' = writes_left c"
  by (auto simp: read_port_def split: prod.splits sum.splits dest: ReadFull_keeps)

lemma getTargetAddress_keeps:
  "getTargetAddress c = (r, c') \<Longrightarrow> written c' = written c \<and> writes_left c' = writes_left c"
  unfolding getTargetAddress_def Let_def
  by (auto split: prod.splits sum.splits if_splits dest!: ReadFull_keeps read_port_keeps)

lemma handleHandshake_written:
  "handleHandshake conn = (r, c1) \<Longrightarrow>
   written c1 = (if r = None then written conn @ [CHR 0x05, CHR 0x00] else written conn)"
  unfolding handleHandshake_def Let_def
  by (auto simp: socks5Version_def noAuth_def split: prod.splits sum.splits option.splits if_splits
      dest!: ReadFull_keeps Write_written)

lemma connect_response_bytes:
  "connect_response rep =
     [CHR 0x05, rep, CHR 0x00, CHR 0x01, CHR 0x00, CHR 0x00, CHR 0x00, CHR 0x00, CHR 0x00, CHR 0x00]"
  by (simp add: connect_response_def socks5Version_def atypIPv4_def)


lemma handled_early:
  "handleHandshake conn = (Some e, c1) \<Longrightarrow>
   handleConnection m dial nano conn index = \<lparr>client = Close c1, tracker = stats (wgManager m), relayed = None\<rparr>"
  by (simp add: handleConnection_def Let_def)

lemma handled_bad_request:
  "handleHandshake conn = (None, c1) \<Longrightarrow> getTargetAddress c1 = (Inl e, c2) \<Longrightarrow>
   handleConnection m dial nano conn index = \<lparr>client = Close c2, tracker = stats (wgManager m), relayed = None\<rparr>"
  by (simp add: handleConnection_def Let_def)

lemma handled_request:
  assumes "handleHandshake conn = (None, c1)" "getTargetAddress c1 = (Inr target, c2)"
    "0 < writes_left c2"
  shows "written (client (handleConnection m dial nano conn index)) =
           written c2 @ connect_response (if upstream_ok m dial nano index target then repSuccess else repFailure)"
    and "closed (client (handleConnection m dial nano conn index))"
    and "(relayed (handleConnection m dial nano conn index) \<noteq> None) = upstream_ok m dial nano index target"
  using assms
  by (auto simp: handleConnection_def Let_def upstream_ok_def sendConnectResponse_def Write_def Close_def
      split: sum.splits)

text \<open>
  Claim C4. A handler whose handshake and request parsing succeed writes, after the method
  selection message \<open>05 00\<close> of the handshake, exactly one reply of ten bytes and closes the
  connection: \<open>05 00 00 01 00 00 00 00 00 00\<close> when tunnel selection and the dial both
  succeed (and only then is a relay started), and the same with \<open>01\<close> as second byte when
  either fails. (The client is taken to accept the write.) A handler whose handshake fails
  writes nothing and closes; a handler whose request is malformed has written the method
  selection message of the handshake and writes no reply before it closes.
\<close>

theorem socks5_reply:
  "(\<forall>e c1. handleHandshake conn = (Some e, c1) \<longrightarrow>
      written (client (handleConnection m dial nano conn index)) = written conn \<and>
      closed (client (handleConnection m dial nano conn index)) \<and>
      relayed (handleConnection m dial nano conn index) = None) \<and>
   (\<forall>c1 e c2. handleHandshake conn = (None, c1) \<and> getTargetAddress c1 = (Inl e, c2) \<longrightarrow>
      written (client (handleConnection m dial nano conn index)) = written conn @ [CHR 0x05, CHR 0x00] \<and>
      closed (client (handleConnection m dial nano conn index)) \<and>
      relayed (handleConnection m dial nano conn index) = None) \<and>
   (\<forall>c1 target c2.
      handleHandshake conn = (None, c1) \<and> getTargetAddress c1 = (Inr target, c2) \<and> 0 < writes_left c2 \<longrightarrow>
      written (client (handleConnection m dial nano conn index)) =
        written conn @ [CHR 0x05, CHR 0x00] @
        [CHR 0x05, if upstream_ok m dial nano index target then CHR 0x00 else CHR 0x01, CHR 0x00, CHR 0x01,
         CHR 0x00, CHR 0x00, CHR 0x00, CHR 0x00, CHR 0x00, CHR 0x00] \<and>
      closed (client (handleConnection m dial nano conn index)) \<and>
      (relayed (handleConnection m dial nano conn index) \<noteq> None) = upstream_ok m dial nano index target)"
proof (intro conjI allI impI)
  fix e c1
  assume h: "handleHandshake conn = (Some e, c1)"
  have w: "written c1 = written conn" using handleHandshake_written [OF h] by simp
  show "written (client (handleConnection m dial nano conn index)) = written conn"
    "closed (client (handleConnection m dial nano conn index))"
    "relayed (handleConnection m dial nano conn index) = None"
    by (simp_all add: handled_early [OF h] Close_def w)
next
  fix c1 e c2
  assume a: "handleHandshake conn = (None, c1) \<and> getTargetAddress c1 = (Inl e, c2)"
  then have h: "handleHandshake conn = (None, c1)" and g: "getTargetAddress c1 = (Inl e, c2)"
    by simp_all
  have w: "written c2 = written conn @ [CHR 0x05, CHR 0x00]"
    using handleHandshake_written [OF h] getTargetAddress_keeps [OF g] by simp
  show "written (client (handleConnection m dial nano conn index)) = written conn @ [CHR 0x05, CHR 0x00]"
    "closed (client (handleConnection m dial nano conn index))"
    "relayed (handleConnection m dial nano conn index) = None"
    by (simp_all add: handled_bad_request [OF h g] Close_def w)
next
  fix c1 target c2
  assume a: "handleHandshake conn = (None, c1) \<and> getTargetAddress c1 = (Inr target, c2) \<and> 0 < writes_left c2"
  then have h: "handleHandshake conn = (None, c1)" and g: "getTargetAddress c1 = (Inr target, c2)"
    and l: "0 < writes_left c2"
    by simp_all
  have w: "written c2 = written conn @ [CHR 0x05, CHR 0x00]"
    using handleHandshake_written [OF h] getTargetAddress_keeps [OF g] by simp
  show "written (client (handleConnection m dial nano conn index)) =
        written conn @ [CHR 0x05, CHR 0x00] @
        [CHR 0x05, if upstream_ok m dial nano index target then CHR 0x00 else CHR 0x01, CHR 0x00, CHR 0x01,
         CHR 0x00, CHR 0x00, CHR 0x00, CHR 0x00, CHR 0x00, CHR 0x00]"
    using handled_request(1) [OF h g l, of m dial nano index]
    by (simp add: w connect_response_bytes repSuccess_def repFailure_def)
  show "closed (client (handleConnection m dial nano conn index))"
    by (rule handled_request(2) [OF h g l])
  show "(relayed (handleConnection m dial nano conn index) \<noteq> None) = upstream_ok m dial nano index target"
    by (rule handled_request(3) [OF h g l])
qed


text \<open>The handshake and the request of the example clients.\<close>

lemma connecting_client_handshake:
  "handleHandshake connecting_client =
     (None, \<lparr>pending = connect_request, written = [CHR 0x05, CHR 0x00], writes_left = 1, closed = False\<rparr>)"
  by (simp add: handleHandshake_def connecting_client_def greeting_def ReadFull_def Write_def
      socks5Version_def noAuth_def)

lemma connecting_client_request:
  "getTargetAddress \<lparr>pending = connect_request, written = [CHR 0x05, CHR 0x00], writes_left = 1, closed = False\<rparr> =
     (Inr ''93.184.216.34:443'',
      \<lparr>pending = [], written = [CHR 0x05, CHR 0x00], writes_left = 1, closed = False\<rparr>)"
  by code_simp

lemma socks4_client_handshake:
  "handleHandshake socks4_client =
     (Some (UnsupportedSocksVersion (CHR 0x04)),
      \<lparr>pending = [CHR 0x00], written = [], writes_left = 2, closed = False\<rparr>)"
  by (simp add: handleHandshake_def socks4_client_def ReadFull_def socks5Version_def)

lemma bind_client_handshake:
  "handleHandshake bind_client =
     (None, \<lparr>pending = [CHR 0x05, CHR 0x02, CHR 0x00, CHR 0x01, CHR 0x5D, CHR 0xB8, CHR 0xD8, CHR 0x22, CHR 0x01, CHR 0xBB],
             written = [CHR 0x05, CHR 0x00], writes_left = 1, closed = False\<rparr>)"
  by (simp add: handleHandshake_def bind_client_def greeting_def ReadFull_def Write_def
      socks5Version_def noAuth_def)

lemma bind_client_request:
  "getTargetAddress
     \<lparr>pending = [CHR 0x05, CHR 0x02, CHR 0x00, CHR 0x01, CHR 0x5D, CHR 0xB8, CHR 0xD8, CHR 0x22, CHR 0x01, CHR 0xBB],
      written = [CHR 0x05, CHR 0x00], writes_left = 1, closed = False\<rparr> =
     (Inl (UnsupportedCommand (CHR 0x02)),
      \<lparr>pending = [CHR 0x5D, CHR 0xB8, CHR 0xD8, CHR 0x22, CHR 0x01, CHR 0xBB],
       written = [CHR 0x05, CHR 0x00], writes_left = 1, closed = False\<rparr>)"
  by (simp add: getTargetAddress_def ReadFull_def socks5Version_def cmdConnect_def)

lemma example_upstream:
  "upstream_ok example_proxy reachable 0 1 ''93.184.216.34:443''"
  "\<not> upstream_ok example_proxy reachable 0 2 ''93.184.216.34:443''"
  "\<not> upstream_ok example_proxy unreachable 0 1 ''93.184.216.34:443''"
  by (simp_all add: upstream_ok_def select_connection_def GetHealthyConnection_def example_proxy_def
      two_tunnels_def tunnel_a_def tunnel_b_def reachable_def unreachable_def)

text \<open>
  Claim C4 at the example clients: a CONNECT through the healthy tunnel, through the
  unhealthy tunnel, a greeting of version 4 and a BIND request.
\<close>

theorem socks5_reply_witness:
  "handleHandshake socks4_client =
     (Some (UnsupportedSocksVersion (CHR 0x04)),
      \<lparr>pending = [CHR 0x00], written = [], writes_left = 2, closed = False\<rparr>) \<and>
   written (client (handleConnection example_proxy reachable 0 socks4_client 1)) = [] \<and>
   written (client (handleConnection example_proxy reachable 0 bind_client 1)) = [CHR 0x05, CHR 0x00] \<and>
   upstream_ok example_proxy reachable 0 1 ''93.184.216.34:443'' \<and>
   written (client (handleConnection example_proxy reachable 0 connecting_client 1)) =
     [CHR 0x05, CHR 0x00, CHR 0x05, CHR 0x00, CHR 0x00, CHR 0x01, CHR 0x00, CHR 0x00, CHR 0x00, CHR 0x00, CHR 0x00, CHR 0x00] \<and>
   \<not> upstream_ok example_proxy reachable 0 2 ''93.184.216.34:443'' \<and>
   written (client (handleConnection example_proxy reachable 0 connecting_client 2)) =
     [CHR 0x05, CHR 0x00, CHR 0x05, CHR 0x01, CHR 0x00, CHR 0x01, CHR 0x00, CHR 0x00, CHR 0x00, CHR 0x00, CHR 0x00, CHR 0x00] \<and>
   closed (client (handleConnection example_proxy reachable 0 connecting_client 2))"
proof -
  have w0: "written socks4_client = []" "written bind_client = []" "written connecting_client = []"
    by (simp_all add: socks4_client_def bind_client_def connecting_client_def)
  have a: "written (client (handleConnection example_proxy reachable 0 socks4_client 1)) = []"
    using socks5_reply [of socks4_client example_proxy reachable 0 1,
        THEN conjunct1, rule_format, OF socks4_client_handshake] w0
    by simp
  have b: "written (client (handleConnection example_proxy reachable 0 bind_client 1)) = [CHR 0x05, CHR 0x00]"
    using socks5_reply [of bind_client example_proxy reachable 0 1,
        THEN conjunct2, THEN conjunct1, rule_format, OF conjI [OF bind_client_handshake bind_client_request]] w0
    by simp
  have l: "0 < writes_left \<lparr>pending = [], written = [CHR 0x05, CHR 0x00], writes_left = 1, closed = False\<rparr>"
    by simp
  note r = conjI [OF connecting_client_handshake conjI [OF connecting_client_request l]]
  have c: "written (client (handleConnection example_proxy reachable 0 connecting_client 1)) =
     [CHR 0x05, CHR 0x00, CHR 0x05, CHR 0x00, CHR 0x00, CHR 0x01, CHR 0x00, CHR 0x00, CHR 0x00, CHR 0x00, CHR 0x00, CHR 0x00]"
    using socks5_reply [of connecting_client example_proxy reachable 0 1,
        THEN conjunct2, THEN conjunct2, rule_format, OF r] w0 example_upstream
    by simp
  have d: "written (client (handleConnection example_proxy reachable 0 connecting_client 2)) =
     [CHR 0x05, CHR 0x00, CHR 0x05, CHR 0x01, CHR 0x00, CHR 0x01, CHR 0x00, CHR 0x00, CHR 0x00, CHR 0x00, CHR 0x00, CHR 0x00]"
    and e: "closed (client (handleConnection example_proxy reachable 0 connecting_client 2))"
    using socks5_reply [of connecting_client example_proxy reachable 0 2,
        THEN conjunct2, THEN conjunct2, rule_format, OF r] w0 example_upstream
    by simp_all
  show ?thesis
    using a b c d e example_upstream socks4_client_handshake by simp
qed


subsection \<open>The target of a request\<close>

lemma ReadFull_prefix:
  "pending c = xs @ rest \<Longrightarrow> length xs = n \<Longrightarrow> ReadFull c n = (Inr xs, c\<lparr>pending := rest\<rparr>)"
  by (simp add: ReadFull_def)

lemma read_port_prefix:
  "pending c = port @ rest \<Longrightarrow> length port = 2 \<Longrightarrow>
   fst (read_port a c) = Inr (a @ '':'' @ decimal (of_char (port ! 0) * 256 + of_char (port ! 1)))"
  by (simp add: read_port_def ReadFull_prefix [where xs = port and rest = rest] BigEndian_Uint16_def)

lemma mapped_iff:
  assumes "length ip = 16"
  shows "(list_all (\<lambda>b. b = CHR 0x00) (take 10 ip) \<and> ip ! 10 = CHR 0xFF \<and> ip ! 11 = CHR 0xFF) =
         (take 12 ip = replicate 10 (CHR 0x00) @ [CHR 0xFF, CHR 0xFF])"
proof -
  have t: "take 12 ip = take 10 ip @ [ip ! 10, ip ! 11]"
    using assms by (simp add: take_Suc_conv_app_nth numeral_Bit0 numeral_Bit1 eval_nat_numeral)
  have z: "list_all (\<lambda>b. b = CHR 0x00) (take 10 ip) = (take 10 ip = replicate 10 (CHR 0x00))"
  proof
    assume "list_all (\<lambda>b. b = CHR 0x00) (take 10 ip)"
    then have "\<And>y. y \<in> set (take 10 ip) \<Longrightarrow> y = CHR 0x00" by (simp add: list_all_iff)
    moreover have "length (take 10 ip) = 10" using assms by simp
    ultimately show "take 10 ip = replicate 10 (CHR 0x00)" by (intro replicate_eqI)
  next
    assume "take 10 ip = replicate 10 (CHR 0x00)"
    then show "list_all (\<lambda>b. b = CHR 0x00) (take 10 ip)" by (simp add: list_all_iff)
  qed
  have l: "length (take 10 ip) = length (replicate 10 (CHR 0x00))" using assms by simp
  show ?thesis unfolding t z using l by auto
qed

lemma IP_String_4: "length ip = 4 \<Longrightarrow> IP_String ip = string4 ip"
  by (simp add: IP_String_def To4_def)

lemma IP_String_16:
  "length ip = 16 \<Longrightarrow>
   IP_String ip =
     (if take 12 ip = replicate 10 (CHR 0x00) @ [CHR 0xFF, CHR 0xFF] then string4 (drop 12 ip)
      else string6 ip)"
  using mapped_iff [of ip] by (simp add: IP_String_def To4_def)


lemma ReadFull_Inr:
  "ReadFull c n = (Inr buf, c1) \<Longrightarrow> n \<le> length (pending c) \<and> buf = take n (pending c)"
  by (auto simp: ReadFull_def split: if_splits)

lemma getTargetAddress_header:
  assumes "pending conn = [ver, cmd, rsv, atyp] @ rest"
  shows "getTargetAddress conn =
     (if ver \<noteq> CHR 0x05 then (Inl (InvalidVersion ver), conn\<lparr>pending := rest\<rparr>)
      else if cmd \<noteq> CHR 0x01 then (Inl (UnsupportedCommand cmd), conn\<lparr>pending := rest\<rparr>)
      else if atyp = CHR 0x01 then
        (case ReadFull (conn\<lparr>pending := rest\<rparr>) 4 of
           (Inl e, c2) \<Rightarrow> (Inl ReadIPv4, c2)
         | (Inr ipBuf, c2) \<Rightarrow> read_port (IP_String ipBuf) c2)
      else if atyp = CHR 0x03 then
        (case ReadFull (conn\<lparr>pending := rest\<rparr>) 1 of
           (Inl e, c2) \<Rightarrow> (Inl ReadDomainLength, c2)
         | (Inr lenBuf, c2) \<Rightarrow>
             (case ReadFull c2 (of_char (lenBuf ! 0)) of
                (Inl e, c3) \<Rightarrow> (Inl ReadDomain, c3)
              | (Inr domainBuf, c3) \<Rightarrow> read_port domainBuf c3))
      else if atyp = CHR 0x04 then
        (case ReadFull (conn\<lparr>pending := rest\<rparr>) 16 of
           (Inl e, c2) \<Rightarrow> (Inl ReadIPv6, c2)
         | (Inr ipBuf, c2) \<Rightarrow> read_port (IP_String ipBuf) c2)
      else (Inl (UnsupportedAddressType atyp), conn\<lparr>pending := rest\<rparr>))"
proof -
  have r: "ReadFull conn 4 = (Inr [ver, cmd, rsv, atyp], conn\<lparr>pending := rest\<rparr>)"
    using assms by (intro ReadFull_prefix) simp_all
  show ?thesis
    unfolding getTargetAddress_def r
    by (simp add: Let_def socks5Version_def cmdConnect_def atypIPv4_def atypDomain_def atypIPv6_def)
qed

lemma target_ipv4:
  assumes "pending conn = [CHR 0x05, CHR 0x01, rsv, CHR 0x01] @ ip @ port @ rest"
    "length ip = 4" "length port = 2"
  shows "fst (getTargetAddress conn) =
           Inr (string4 ip @ '':'' @ decimal (of_char (port ! 0) * 256 + of_char (port ! 1)))"
proof -
  have r: "ReadFull (conn\<lparr>pending := ip @ port @ rest\<rparr>) 4 = (Inr ip, conn\<lparr>pending := port @ rest\<rparr>)"
    using assms(2) by (simp add: ReadFull_def)
  show ?thesis
    using read_port_prefix [of "conn\<lparr>pending := port @ rest\<rparr>" port rest "string4 ip"] assms(2,3)
    by (simp add: getTargetAddress_header [OF assms(1)] r IP_String_4)
qed

lemma target_ipv6:
  assumes "pending conn = [CHR 0x05, CHR 0x01, rsv, CHR 0x04] @ ip @ port @ rest"
    "length ip = 16" "length port = 2"
  shows "fst (getTargetAddress conn) =
           Inr ((if take 12 ip = replicate 10 (CHR 0x00) @ [CHR 0xFF, CHR 0xFF] then string4 (drop 12 ip)
                 else string6 ip) @ '':'' @ decimal (of_char (port ! 0) * 256 + of_char (port ! 1)))"
proof -
  have r: "ReadFull (conn\<lparr>pending := ip @ port @ rest\<rparr>) 16 = (Inr ip, conn\<lparr>pending := port @ rest\<rparr>)"
    using assms(2) by (simp add: ReadFull_def)
  show ?thesis
    using read_port_prefix [of "conn\<lparr>pending := port @ rest\<rparr>" port rest "IP_String ip"] assms(3)
    by (simp add: getTargetAddress_header [OF assms(1)] r IP_String_16 [OF assms(2)])
qed

lemma target_domain:
  assumes "pending conn = [CHR 0x05, CHR 0x01, rsv, CHR 0x03, l] @ domain @ port @ rest"
    "length domain = of_char l" "length port = 2"
  shows "fst (getTargetAddress conn) =
           Inr (domain @ '':'' @ decimal (of_char (port ! 0) * 256 + of_char (port ! 1)))"
proof -
  have p: "pending conn = [CHR 0x05, CHR 0x01, rsv, CHR 0x03] @ (l # domain @ port @ rest)"
    using assms(1) by simp
  have r1: "ReadFull (conn\<lparr>pending := l # domain @ port @ rest\<rparr>) (Suc 0) =
              (Inr [l], conn\<lparr>pending := domain @ port @ rest\<rparr>)"
    by (simp add: ReadFull_def)
  have r2: "ReadFull (conn\<lparr>pending := domain @ port @ rest\<rparr>) (of_char l) =
              (Inr domain, conn\<lparr>pending := port @ rest\<rparr>)"
    using assms(2) by (simp add: ReadFull_def)
  show ?thesis
    using read_port_prefix [of "conn\<lparr>pending := port @ rest\<rparr>" port rest domain] assms(3)
    by (simp add: getTargetAddress_header [OF p] r1 r2)
qed

lemma target_only_connect:
  assumes "fst (getTargetAddress conn) = Inr t"
  shows "4 \<le> length (pending conn) \<and> pending conn ! 0 = CHR 0x05 \<and> pending conn ! 1 = CHR 0x01 \<and>
         (pending conn ! 3 = CHR 0x01 \<or> pending conn ! 3 = CHR 0x03 \<or> pending conn ! 3 = CHR 0x04)"
proof (cases "ReadFull conn 4")
  case (Pair r c1)
  show ?thesis
  proof (cases r)
    case (Inl e)
    then show ?thesis using assms Pair by (simp add: getTargetAddress_def)
  next
    case (Inr buf)
    then have b: "4 \<le> length (pending conn)" "buf = take 4 (pending conn)"
      using ReadFull_Inr [of conn 4 buf c1] Pair by simp_all
    have "buf ! 0 = CHR 0x05 \<and> buf ! 1 = CHR 0x01 \<and>
          (buf ! 3 = CHR 0x01 \<or> buf ! 3 = CHR 0x03 \<or> buf ! 3 = CHR 0x04)"
      using assms Pair Inr
      by (auto simp: getTargetAddress_def Let_def socks5Version_def cmdConnect_def atypIPv4_def
          atypDomain_def atypIPv6_def split: if_splits)
    then show ?thesis using b by simp
  qed
qed


text \<open>
  Claim C5, amended. Parsing a request succeeds only when its first byte is \<open>05\<close>, its
  command byte \<open>01\<close> and its address type \<open>01\<close>, \<open>03\<close> or \<open>04\<close>; any other version, command
  or address type yields an error. On success the target is \<open>host:port\<close> with the port the
  big-endian value of the two bytes after the address, in decimal, and the host: the dotted
  quad of the four address bytes for type \<open>01\<close>; the \<open>L\<close> bytes after the length byte as they
  are for type \<open>03\<close>, for every \<open>L\<close> from 0 to 255; and for type \<open>04\<close> the RFC 5952 text of
  the sixteen address bytes, unless these are an IPv4-mapped address (ten zero bytes, then
  \<open>FF FF\<close>), for which it is the dotted quad of the last four bytes.
\<close>

theorem getTargetAddress_target:
  "(\<forall>t. fst (getTargetAddress conn) = Inr t \<longrightarrow>
      4 \<le> length (pending conn) \<and> pending conn ! 0 = CHR 0x05 \<and> pending conn ! 1 = CHR 0x01 \<and>
      (pending conn ! 3 = CHR 0x01 \<or> pending conn ! 3 = CHR 0x03 \<or> pending conn ! 3 = CHR 0x04)) \<and>
   (pending conn = [ver, cmd, rsv, atyp] @ rest \<and> ver \<noteq> CHR 0x05 \<longrightarrow>
      fst (getTargetAddress conn) = Inl (InvalidVersion ver)) \<and>
   (pending conn = [CHR 0x05, cmd, rsv, atyp] @ rest \<and> cmd \<noteq> CHR 0x01 \<longrightarrow>
      fst (getTargetAddress conn) = Inl (UnsupportedCommand cmd)) \<and>
   (pending conn = [CHR 0x05, CHR 0x01, rsv, atyp] @ rest \<and>
    atyp \<noteq> CHR 0x01 \<and> atyp \<noteq> CHR 0x03 \<and> atyp \<noteq> CHR 0x04 \<longrightarrow>
      fst (getTargetAddress conn) = Inl (UnsupportedAddressType atyp)) \<and>
   (pending conn = [CHR 0x05, CHR 0x01, rsv, CHR 0x01] @ ip4 @ port @ rest \<and>
    length ip4 = 4 \<and> length port = 2 \<longrightarrow>
      fst (getTargetAddress conn) =
        Inr (string4 ip4 @ '':'' @ decimal (of_char (port ! 0) * 256 + of_char (port ! 1)))) \<and>
   (pending conn = [CHR 0x05, CHR 0x01, rsv, CHR 0x03, l] @ domain @ port @ rest \<and>
    length domain = of_char l \<and> length port = 2 \<longrightarrow>
      fst (getTargetAddress conn) =
        Inr (domain @ '':'' @ decimal (of_char (port ! 0) * 256 + of_char (port ! 1)))) \<and>
   (pending conn = [CHR 0x05, CHR 0x01, rsv, CHR 0x04] @ ip6 @ port @ rest \<and>
    length ip6 = 16 \<and> length port = 2 \<longrightarrow>
      fst (getTargetAddress conn) =
        Inr ((if take 12 ip6 = replicate 10 (CHR 0x00) @ [CHR 0xFF, CHR 0xFF] then string4 (drop 12 ip6)
              else string6 ip6) @ '':'' @ decimal (of_char (port ! 0) * 256 + of_char (port ! 1))))"
proof -
  have c1: "\<forall>t. fst (getTargetAddress conn) = Inr t \<longrightarrow>
      4 \<le> length (pending conn) \<and> pending conn ! 0 = CHR 0x05 \<and> pending conn ! 1 = CHR 0x01 \<and>
      (pending conn ! 3 = CHR 0x01 \<or> pending conn ! 3 = CHR 0x03 \<or> pending conn ! 3 = CHR 0x04)"
    using target_only_connect by blast
  have c2: "pending conn = [ver, cmd, rsv, atyp] @ rest \<and> ver \<noteq> CHR 0x05 \<longrightarrow>
      fst (getTargetAddress conn) = Inl (InvalidVersion ver)"
    using getTargetAddress_header [of conn ver cmd rsv atyp rest] by simp
  have c3: "pending conn = [CHR 0x05, cmd, rsv, atyp] @ rest \<and> cmd \<noteq> CHR 0x01 \<longrightarrow>
      fst (getTargetAddress conn) = Inl (UnsupportedCommand cmd)"
    using getTargetAddress_header [of conn "CHR 0x05" cmd rsv atyp rest] by simp
  have c4: "pending conn = [CHR 0x05, CHR 0x01, rsv, atyp] @ rest \<and>
    atyp \<noteq> CHR 0x01 \<and> atyp \<noteq> CHR 0x03 \<and> atyp \<noteq> CHR 0x04 \<longrightarrow>
      fst (getTargetAddress conn) = Inl (UnsupportedAddressType atyp)"
    using getTargetAddress_header [of conn "CHR 0x05" "CHR 0x01" rsv atyp rest] by simp
  have c5: "pending conn = [CHR 0x05, CHR 0x01, rsv, CHR 0x01] @ ip4 @ port @ rest \<and>
    length ip4 = 4 \<and> length port = 2 \<longrightarrow>
      fst (getTargetAddress conn) =
        Inr (string4 ip4 @ '':'' @ decimal (of_char (port ! 0) * 256 + of_char (port ! 1)))"
    using target_ipv4 [of conn rsv ip4 port rest] by blast
  have c6: "pending conn = [CHR 0x05, CHR 0x01, rsv, CHR 0x03, l] @ domain @ port @ rest \<and>
    length domain = of_char l \<and> length port = 2 \<longrightarrow>
      fst (getTargetAddress conn) =
        Inr (domain @ '':'' @ decimal (of_char (port ! 0) * 256 + of_char (port ! 1)))"
    using target_domain [of conn rsv l domain port rest] by blast
  have c7: "pending conn = [CHR 0x05, CHR 0x01, rsv, CHR 0x04] @ ip6 @ port @ rest \<and>
    length ip6 = 16 \<and> length port = 2 \<longrightarrow>
      fst (getTargetAddress conn) =
        Inr ((if take 12 ip6 = replicate 10 (CHR 0x00) @ [CHR 0xFF, CHR 0xFF] then string4 (drop 12 ip6)
              else string6 ip6) @ '':'' @ decimal (of_char (port ! 0) * 256 + of_char (port ! 1)))"
    using target_ipv6 [of conn rsv ip6 port rest] by blast
  show ?thesis
    by (intro conjI c1 c2 c3 c4 c5 c6 c7)
qed

text \<open>The printers at the example addresses.\<close>

lemma groups_ipv6_address: "groups ipv6_address = [8193, 3512, 0, 0, 0, 0, 0, 1]"
  by (simp add: groups_def v6u16_def ipv6_address_def upt_rec)

lemma zero_run_ipv6_address: "zero_run (groups ipv6_address) = (2, 7)"
  by (simp add: groups_ipv6_address zero_run_def upt_rec)

lemma groups_mapped_address: "groups mapped_address = [0, 0, 0, 0, 0, 65535, 258, 772]"
  by (simp add: groups_def v6u16_def mapped_address_def upt_rec)

lemma zero_run_mapped_address: "zero_run (groups mapped_address) = (0, 5)"
  by (simp add: groups_mapped_address zero_run_def upt_rec)

lemma string6_ipv6_address: "string6 ipv6_address = ''2001:db8::1''"
  unfolding string6_def Let_def zero_run_ipv6_address
  by (simp add: groups_ipv6_address appendHex_def digits_def)

lemma string6_mapped_address: "string6 mapped_address = ''::ffff:102:304''"
  unfolding string6_def Let_def zero_run_mapped_address
  by (simp add: groups_mapped_address appendHex_def digits_def)

lemma example_texts:
  "string4 [CHR 0x5D, CHR 0xB8, CHR 0xD8, CHR 0x22] = ''93.184.216.34''"
  "string4 [CHR 0x01, CHR 0x02, CHR 0x03, CHR 0x04] = ''1.2.3.4''"
  "decimal 443 = ''443''"
  "decimal 80 = ''80''"
  by (simp_all add: string4_def decimal.simps digits_def)

lemma example_addresses:
  "length ipv6_address = 16" "length mapped_address = 16"
  "take 12 ipv6_address \<noteq> replicate 10 (CHR 0x00) @ [CHR 0xFF, CHR 0xFF]"
  "take 12 mapped_address = replicate 10 (CHR 0x00) @ [CHR 0xFF, CHR 0xFF]"
  "drop 12 mapped_address = [CHR 0x01, CHR 0x02, CHR 0x03, CHR 0x04]"
  by (simp_all add: ipv6_address_def mapped_address_def eval_nat_numeral)

lemma mapped_request_target:
  "fst (getTargetAddress (requesting ([CHR 0x05, CHR 0x01, CHR 0x00, CHR 0x04] @ mapped_address @ [CHR 0x01, CHR 0xBB]))) =
     Inr ''1.2.3.4:443''"
  using target_ipv6 [of "requesting ([CHR 0x05, CHR 0x01, CHR 0x00, CHR 0x04] @ mapped_address @ [CHR 0x01, CHR 0xBB])"
      "CHR 0x00" mapped_address "[CHR 0x01, CHR 0xBB]" "[]"]
  by (simp add: requesting_def example_addresses example_texts)

text \<open>
  Claim C5 at a request for an IPv4 address, for a domain, for an IPv6 address and for the
  IPv4-mapped address, and at a BIND request.
\<close>

theorem getTargetAddress_target_witness:
  "fst (getTargetAddress (requesting connect_request)) = Inr ''93.184.216.34:443'' \<and>
   fst (getTargetAddress (requesting domain_request)) = Inr ''www.example.com:80'' \<and>
   fst (getTargetAddress (requesting ([CHR 0x05, CHR 0x01, CHR 0x00, CHR 0x04] @ ipv6_address @ [CHR 0x01, CHR 0xBB]))) =
     Inr ''2001:db8::1:443'' \<and>
   fst (getTargetAddress (requesting ([CHR 0x05, CHR 0x01, CHR 0x00, CHR 0x04] @ mapped_address @ [CHR 0x01, CHR 0xBB]))) =
     Inr ''1.2.3.4:443'' \<and>
   fst (getTargetAddress (requesting [CHR 0x05, CHR 0x02, CHR 0x00, CHR 0x01])) =
     Inl (UnsupportedCommand (CHR 0x02)) \<and>
   pending (requesting connect_request) ! 0 = CHR 0x05 \<and> pending (requesting connect_request) ! 1 = CHR 0x01"
proof -
  have a: "fst (getTargetAddress (requesting connect_request)) = Inr ''93.184.216.34:443''"
    using getTargetAddress_target [where conn = "requesting connect_request" and rsv = "CHR 0x00"
        and ?ip4.0 = "[CHR 0x5D, CHR 0xB8, CHR 0xD8, CHR 0x22]" and port = "[CHR 0x01, CHR 0xBB]" and rest = "[]"]
    by (simp add: requesting_def connect_request_def example_texts)
  have b: "fst (getTargetAddress (requesting domain_request)) = Inr ''www.example.com:80''"
    using getTargetAddress_target [where conn = "requesting domain_request" and rsv = "CHR 0x00"
        and l = "CHR 0x0F" and domain = "''www.example.com''" and port = "[CHR 0x00, CHR 0x50]" and rest = "[]"]
    by (simp add: requesting_def domain_request_def example_texts)
  have c: "fst (getTargetAddress (requesting ([CHR 0x05, CHR 0x01, CHR 0x00, CHR 0x04] @ ipv6_address @ [CHR 0x01, CHR 0xBB]))) =
     Inr ''2001:db8::1:443''"
    using getTargetAddress_target [where conn = "requesting ([CHR 0x05, CHR 0x01, CHR 0x00, CHR 0x04] @ ipv6_address @ [CHR 0x01, CHR 0xBB])"
        and rsv = "CHR 0x00" and ?ip6.0 = ipv6_address and port = "[CHR 0x01, CHR 0xBB]" and rest = "[]"]
    by (simp add: requesting_def example_texts example_addresses string6_ipv6_address)
  have d: "fst (getTargetAddress (requesting ([CHR 0x05, CHR 0x01, CHR 0x00, CHR 0x04] @ mapped_address @ [CHR 0x01, CHR 0xBB]))) =
     Inr ''1.2.3.4:443''"
    using getTargetAddress_target [where conn = "requesting ([CHR 0x05, CHR 0x01, CHR 0x00, CHR 0x04] @ mapped_address @ [CHR 0x01, CHR 0xBB])"
        and rsv = "CHR 0x00" and ?ip6.0 = mapped_address and port = "[CHR 0x01, CHR 0xBB]" and rest = "[]"]
    by (simp add: requesting_def example_texts example_addresses)
  have e: "fst (getTargetAddress (requesting [CHR 0x05, CHR 0x02, CHR 0x00, CHR 0x01])) =
     Inl (UnsupportedCommand (CHR 0x02))"
    using getTargetAddress_target [where conn = "requesting [CHR 0x05, CHR 0x02, CHR 0x00, CHR 0x01]"
        and cmd = "CHR 0x02" and rsv = "CHR 0x00" and atyp = "CHR 0x01" and rest = "[]"]
    by (simp add: requesting_def)
  have f: "pending (requesting connect_request) ! 0 = CHR 0x05 \<and> pending (requesting connect_request) ! 1 = CHR 0x01"
    using getTargetAddress_target [where conn = "requesting connect_request", THEN conjunct1, rule_format, OF a]
    by simp
  show ?thesis using a b c d e f by simp
qed

text \<open>
  Claim C5 as stated fails for type \<open>04\<close> at the IPv4-mapped address \<open>::ffff:1.2.3.4\<close>: the
  host is the dotted quad \<open>1.2.3.4\<close>, not the text of the sixteen bytes.
\<close>

theorem getTargetAddress_mapped_counterexample:
  "fst (getTargetAddress (requesting ([CHR 0x05, CHR 0x01, CHR 0x00, CHR 0x04] @ mapped_address @ [CHR 0x01, CHR 0xBB]))) =
     Inr ''1.2.3.4:443'' \<and>
   string6 mapped_address @ '':'' @ decimal 443 = ''::ffff:102:304:443'' \<and>
   fst (getTargetAddress (requesting ([CHR 0x05, CHR 0x01, CHR 0x00, CHR 0x04] @ mapped_address @ [CHR 0x01, CHR 0xBB]))) \<noteq>
     Inr (string6 mapped_address @ '':'' @ decimal 443)"
  unfolding mapped_request_target
  by (simp add: string6_mapped_address example_texts)


subsection \<open>The configuration parser\<close>

lemma append_addresses_filter:
  "append_addresses addrs addrList = addrs @ filter (\<lambda>t. t \<noteq> []) (map TrimSpace addrList)"
  by (induction addrList arbitrary: addrs) (simp_all add: Let_def)

lemma Interface_is_header: "TrimSpace line = ''[Interface]'' \<Longrightarrow> spec_is_header line"
  by (simp add: spec_is_header_def HasPrefix_def)

lemma spec_in_interface_last:
  "spec_in_interface earlier =
     (filter spec_is_header earlier \<noteq> [] \<and>
      TrimSpace (last (filter spec_is_header earlier)) = ''[Interface]'')"
  by (simp add: spec_in_interface_def split: list.splits)

lemma spec_in_interface_snoc:
  "spec_in_interface (earlier @ [line]) =
     (if spec_is_header line then TrimSpace line = ''[Interface]'' else spec_in_interface earlier)"
  by (simp add: spec_in_interface_last)

text \<open>One pass of the loop body against the specification's reading of the line.\<close>

lemma parse_line_step:
  assumes "inInterface st = spec_in_interface earlier"
  shows "inInterface (parse_line st line) = spec_in_interface (earlier @ [line])"
    and "wgConfig (parse_line st line) =
           wgConfig st @ (if spec_dropped earlier line then [] else line @ [nl])"
    and "addresses (parse_line st line) =
           addresses st @
           (if spec_is_setting line \<and> spec_in_interface earlier \<and> spec_key line = ''Address''
            then spec_tokens (spec_value line) else [])"
proof -
  consider (iface) "TrimSpace line = ''[Interface]''"
    | (header) "TrimSpace line \<noteq> ''[Interface]''" "HasPrefix (TrimSpace line) ''[''"
    | (blank) "\<not> HasPrefix (TrimSpace line) ''[''"
        "TrimSpace line = [] \<or> HasPrefix (TrimSpace line) ''#'' \<or> HasPrefix (TrimSpace line) '';''"
    | (setting) "spec_is_setting line"
    | (other) "\<not> HasPrefix (TrimSpace line) ''[''" "TrimSpace line \<noteq> []"
        "\<not> HasPrefix (TrimSpace line) ''#''" "\<not> HasPrefix (TrimSpace line) '';''"
        "CHR ''='' \<notin> set (TrimSpace line)"
    unfolding spec_is_setting_def spec_is_header_def by blast
  then have "inInterface (parse_line st line) = spec_in_interface (earlier @ [line]) \<and>
    wgConfig (parse_line st line) =
           wgConfig st @ (if spec_dropped earlier line then [] else line @ [nl]) \<and>
    addresses (parse_line st line) =
           addresses st @
           (if spec_is_setting line \<and> spec_in_interface earlier \<and> spec_key line = ''Address''
            then spec_tokens (spec_value line) else [])"
  proof cases
    case iface
    then have "spec_is_header line" by (rule Interface_is_header)
    then show ?thesis
      using iface
      by (simp add: parse_line_def WriteString_def spec_in_interface_snoc spec_dropped_def spec_is_setting_def)
  next
    case header
    then have "spec_is_header line" by (simp add: spec_is_header_def)
    then show ?thesis
      using header
      by (simp add: parse_line_def WriteString_def spec_in_interface_snoc spec_dropped_def spec_is_setting_def)
  next
    case blank
    then have "\<not> spec_is_header line" "\<not> spec_is_setting line" "TrimSpace line \<noteq> ''[Interface]''"
      by (auto simp: spec_is_header_def spec_is_setting_def HasPrefix_def)
    then show ?thesis
      using blank assms
      by (simp add: parse_line_def WriteString_def spec_in_interface_snoc spec_dropped_def)
  next
    case setting
    then have f: "\<not> spec_is_header line" "TrimSpace line \<noteq> ''[Interface]''"
      "\<not> HasPrefix (TrimSpace line) ''[''" "TrimSpace line \<noteq> []"
      "\<not> HasPrefix (TrimSpace line) ''#''" "\<not> HasPrefix (TrimSpace line) '';''"
      "CHR ''='' \<in> set (TrimSpace line)"
      using Interface_is_header by (auto simp: spec_is_setting_def spec_is_header_def)
    show ?thesis
      using setting f assms
      by (simp add: parse_line_def WriteString_def Contains_def SplitN2_def Let_def
          spec_in_interface_snoc spec_dropped_def interfaceOnlySettings_def
          spec_key_def [symmetric] spec_value_def [symmetric] spec_tokens_def append_addresses_filter)
        blast
  next
    case other
    then have "\<not> spec_is_header line" "\<not> spec_is_setting line" "TrimSpace line \<noteq> ''[Interface]''"
      by (auto simp: spec_is_header_def spec_is_setting_def HasPrefix_def)
    then show ?thesis
      using other assms
      by (simp add: parse_line_def WriteString_def Contains_def spec_in_interface_snoc spec_dropped_def)
  qed
  then show "inInterface (parse_line st line) = spec_in_interface (earlier @ [line])"
    and "wgConfig (parse_line st line) =
           wgConfig st @ (if spec_dropped earlier line then [] else line @ [nl])"
    and "addresses (parse_line st line) =
           addresses st @
           (if spec_is_setting line \<and> spec_in_interface earlier \<and> spec_key line = ''Address''
            then spec_tokens (spec_value line) else [])"
    by simp_all
qed

lemma parse_loop:
  "inInterface st = spec_in_interface earlier \<Longrightarrow>
   wgConfig (foldl parse_line st ls) = wgConfig st @ spec_filtered earlier ls \<and>
   addresses (foldl parse_line st ls) = addresses st @ spec_addresses earlier ls"
proof (induction ls arbitrary: st earlier)
  case Nil
  show ?case by simp
next
  case (Cons line ls)
  have "wgConfig (foldl parse_line (parse_line st line) ls) =
          wgConfig (parse_line st line) @ spec_filtered (earlier @ [line]) ls \<and>
        addresses (foldl parse_line (parse_line st line) ls) =
          addresses (parse_line st line) @ spec_addresses (earlier @ [line]) ls"
    by (rule Cons.IH) (rule parse_line_step(1) [OF Cons.prems])
  then show ?case
    by (simp add: parse_line_step(2,3) [OF Cons.prems])
qed


text \<open>
  Claim C6. For every wg-quick text the parser returns the address tokens and the filtered
  configuration that the specification describes: the tokens are those of the \<open>Address\<close>
  values inside \<open>[Interface]\<close>, each value split at commas, the parts trimmed, the empty ones
  left out, in their order; the filtered configuration holds every line of the file followed
  by a line feed, in order, except the settings inside \<open>[Interface]\<close> whose key is one of
  \<open>Address\<close>, \<open>DNS\<close>, \<open>MTU\<close>, \<open>Table\<close>, \<open>PreUp\<close>, \<open>PostUp\<close>, \<open>PreDown\<close>, \<open>PostDown\<close>,
  \<open>SaveConfig\<close>. The parser fails when the file cannot be read and when there is no
  address token.
\<close>

theorem parseWireGuardConfig_spec:
  "parseWireGuardConfig fs configPath =
     (case fs configPath of
        None \<Rightarrow> Inl ReadFileError
      | Some data \<Rightarrow>
          if spec_addresses [] (Split data nl) = [] then Inl NoAddressFound
          else Inr (spec_filtered [] (Split data nl), spec_addresses [] (Split data nl)))"
proof (cases "fs configPath")
  case None
  then show ?thesis by (simp add: parseWireGuardConfig_def)
next
  case (Some data)
  have i: "inInterface \<lparr>wgConfig = [], addresses = [], inInterface = False\<rparr> = spec_in_interface []"
    by (simp add: spec_in_interface_def)
  show ?thesis
    using parse_loop [OF i, of "Split data nl"] Some
    by (simp add: parseWireGuardConfig_def Let_def)
qed

text \<open>The specification's reading of the example file.\<close>

lemma example_wg_conf_lines:
  "Split example_wg_conf nl =
     [''[Interface]'', ''PrivateKey = abc='', ''Address = 10.0.0.2/32, fd00::2/128'', ''DNS = 1.1.1.1'',
      [], ''[Peer]'', ''# upstream'', ''Address = kept'', ''Endpoint = vpn.example.com:51820'']"
  by (simp add: example_wg_conf_def nl_def)

lemma example_wg_conf_addresses:
  "spec_addresses [] (Split example_wg_conf nl) = [''10.0.0.2/32'', ''fd00::2/128'']"
  unfolding example_wg_conf_lines by code_simp

lemma example_wg_conf_filtered:
  "spec_filtered [] (Split example_wg_conf nl) =
     ''[Interface]'' @ [nl] @ ''PrivateKey = abc='' @ [nl] @ [nl] @ ''[Peer]'' @ [nl] @
     ''# upstream'' @ [nl] @ ''Address = kept'' @ [nl] @ ''Endpoint = vpn.example.com:51820'' @ [nl]"
  unfolding example_wg_conf_lines by code_simp

text \<open>Claim C6 at the example file and at a path that cannot be read.\<close>

theorem parseWireGuardConfig_spec_witness:
  "parseWireGuardConfig example_files ''/etc/wireguard/wg0.conf'' =
     Inr (''[Interface]'' @ [nl] @ ''PrivateKey = abc='' @ [nl] @ [nl] @ ''[Peer]'' @ [nl] @
          ''# upstream'' @ [nl] @ ''Address = kept'' @ [nl] @ ''Endpoint = vpn.example.com:51820'' @ [nl],
          [''10.0.0.2/32'', ''fd00::2/128'']) \<and>
   parseWireGuardConfig example_files ''/etc/wireguard/wg1.conf'' = Inl ReadFileError"
  using parseWireGuardConfig_spec [of example_files "''/etc/wireguard/wg0.conf''"]
    parseWireGuardConfig_spec [of example_files "''/etc/wireguard/wg1.conf''"]
  by (simp add: example_files_def example_wg_conf_addresses example_wg_conf_filtered)


subsection \<open>The time of the last probe\<close>

lemma Index_performHealthCheck: "Index (fst (performHealthCheck m conn p now snow)) = Index conn"
  by (simp add: phc_conn)

lemma lastCheck_performHealthCheck: "lastCheck (fst (performHealthCheck m conn p now snow)) = now"
  by (simp add: phc_conn)

lemma probe_all_Cons:
  "fst (probe_all m r (conn # rest)) =
     fst (performHealthCheck m conn (fst (r (Index conn))) (fst (snd (r (Index conn)))) (snd (snd (r (Index conn)))))
     # fst (probe_all
             (m\<lparr>stats := snd (performHealthCheck m conn (fst (r (Index conn))) (fst (snd (r (Index conn))))
                               (snd (snd (r (Index conn)))))\<rparr>) r rest)"
  by (simp add: case_prod_beta)

lemma probe_all_fields:
  "map lastCheck (fst (probe_all m r cs)) = map (\<lambda>c. fst (snd (r (Index c)))) cs \<and>
   map Index (fst (probe_all m r cs)) = map Index cs"
proof (induction cs arbitrary: m)
  case Nil
  show ?case by simp
next
  case (Cons conn rest)
  show ?case
    unfolding probe_all_Cons
    by (simp add: Cons.IH Index_performHealthCheck lastCheck_performHealthCheck)
qed

lemma health_round_fields:
  "map lastCheck (connections (health_round m r)) = map (\<lambda>c. fst (snd (r (Index c)))) (connections m) \<and>
   map Index (connections (health_round m r)) = map Index (connections m)"
  using probe_all_fields [of m r "connections m"]
  by (simp add: health_round_def case_prod_beta)

lemma rounds_fields:
  "map lastCheck (connections (foldl health_round (health_round m r) ticks)) =
     map (\<lambda>i. fst (snd (last (r # ticks) i))) (map Index (connections m)) \<and>
   map Index (connections (foldl health_round (health_round m r) ticks)) = map Index (connections m)"
proof (induction ticks arbitrary: m r)
  case Nil
  show ?case using health_round_fields [of m r] by (simp add: comp_def)
next
  case (Cons t ticks)
  show ?case
    using Cons.IH [of "health_round m r" t] health_round_fields [of m r] by simp
qed

lemma Initialize_connections:
  "fst (Initialize h probes m) = None \<and> connections (snd (Initialize h probes m)) = connections m"
  by (simp add: Initialize_def Let_def)

text \<open>
  Claim C8, amended. Every probe that the prober issues (\<open>performHealthCheck\<close>), successful or
  not, sets the tunnel's \<open>lastCheck\<close> to the clock reading taken when the attempt returns.
  With a positive check interval this holds for the round that \<open>StartHealthChecks\<close> issues
  at once and for the round of every tick after it: after the last round every tunnel
  carries the reading of its probe in that round. The probes that \<open>Initialize\<close> issues at
  startup call \<open>checkHealth\<close> directly and leave every tunnel as it was.
\<close>

theorem lastCheck_updated_by_prober:
  "lastCheck (fst (performHealthCheck m conn p now snow)) = now \<and>
   (0 < checkInterval m \<longrightarrow>
      StartHealthChecks m initial [] = Some (health_round m initial) \<and>
      (\<exists>m'. StartHealthChecks m initial ticks = Some m' \<and>
            map lastCheck (connections m') =
              map (\<lambda>c. fst (snd (last (initial # ticks) (Index c)))) (connections m))) \<and>
   connections (snd (Initialize h probes m)) = connections m"
  using rounds_fields [of m initial ticks] Initialize_connections [of h probes m]
  by (simp add: lastCheck_performHealthCheck StartHealthChecks_def comp_def)

text \<open>The tunnels of the example configuration before any probe.\<close>

lemma fresh_connections:
  "connections fresh_manager =
     [tunnel_a\<lparr>healthy := False, failureCount := 0\<rparr>, tunnel_b\<lparr>failureCount := 0\<rparr>]"
  by (simp add: fresh_manager_def NewManager_def example_config_def tunnel_a_def tunnel_b_def)


text \<open>Claim C8, amended, at the first round of the prober on the example tunnels.\<close>

theorem lastCheck_updated_by_prober_witness:
  "0 < checkInterval fresh_manager \<and>
   map lastCheck (connections (the (StartHealthChecks fresh_manager good_round []))) = [1700000000, 1700000000] \<and>
   map lastCheck (connections (snd (Initialize example_host (\<lambda>i. Response 200 5000000) fresh_manager))) = [0, 0]"
proof -
  note t = lastCheck_updated_by_prober [of fresh_manager "tunnel_a" DoError 0 0 good_round "[]" example_host
      "\<lambda>i. Response 200 5000000"]
  have i: "0 < checkInterval fresh_manager"
    by (simp add: fresh_manager_def NewManager_def example_config_def wrap64_def)
  obtain m' where s: "StartHealthChecks fresh_manager good_round [] = Some m'"
    and l: "map lastCheck (connections m') =
              map (\<lambda>c. fst (snd (last (good_round # []) (Index c)))) (connections fresh_manager)"
    using t [THEN conjunct2, THEN conjunct1, rule_format, OF i, THEN conjunct2] by blast
  have a: "map lastCheck (connections (the (StartHealthChecks fresh_manager good_round []))) = [1700000000, 1700000000]"
    by (simp add: s l fresh_connections good_round_def)
  have b: "map lastCheck (connections (snd (Initialize example_host (\<lambda>i. Response 200 5000000) fresh_manager))) = [0, 0]"
    unfolding t [THEN conjunct2, THEN conjunct2]
    by (simp add: fresh_connections tunnel_a_def tunnel_b_def)
  show ?thesis using i a b by simp
qed

text \<open>
  Claim C8 as stated fails for the initial round of \<open>Initialize\<close>: both probes are made and
  succeed (the tracker holds their latencies), and \<open>lastCheck\<close> of both tunnels is still the
  zero it was created with, whereas the same probe issued by the prober at second
  1700000000 records that second.
\<close>

theorem Initialize_lastCheck_counterexample:
  "map LatencyCount (tracker_connections (stats (snd (Initialize example_host (\<lambda>i. Response 200 5000000) fresh_manager)))) = [1, 1] \<and>
   map lastCheck (connections (snd (Initialize example_host (\<lambda>i. Response 200 5000000) fresh_manager))) = [0, 0] \<and>
   map lastCheck (connections (health_round fresh_manager good_round)) = [1700000000, 1700000000]"
proof -
  have a: "map lastCheck (connections (snd (Initialize example_host (\<lambda>i. Response 200 5000000) fresh_manager))) = [0, 0]"
    using Initialize_connections [of example_host "\<lambda>i. Response 200 5000000" fresh_manager]
    by (simp add: fresh_connections tunnel_a_def tunnel_b_def)
  have b: "map lastCheck (connections (health_round fresh_manager good_round)) = [1700000000, 1700000000]"
    using health_round_fields [of fresh_manager good_round]
    by (simp add: fresh_connections good_round_def)
  have c: "map LatencyCount (tracker_connections (stats (snd (Initialize example_host (\<lambda>i. Response 200 5000000) fresh_manager)))) = [1, 1]"
    by code_simp
  show ?thesis using a b c by simp
qed


subsection \<open>The exit status\<close>
























end
